theory Spec2Isabelle
  imports Complex_Main
begin

section \<open>JavaScript values as the bridge reads them\<close>

text \<open>
  The bridge (class \<open>ClaudeProxyBridge\<close>) is JavaScript. A field that may be absent is an
  \<open>option\<close> (\<open>None\<close> is \<open>undefined\<close>); numbers are exact reals (finite doubles, with the
  arithmetic taken exactly); the clock \<open>Date.now()\<close> is an argument of each call.
\<close>

definition truthy :: "string option \<Rightarrow> bool" where
  \<comment> \<open>ToBoolean of an optional string: \<open>undefined\<close> and the empty string are falsy.\<close>
  "truthy s = (case s of None \<Rightarrow> False | Some x \<Rightarrow> x \<noteq> [])"

fun startsWith :: "string \<Rightarrow> string \<Rightarrow> bool" where
  "startsWith s [] = True"
| "startsWith [] (c # cs) = False"
| "startsWith (x # xs) (c # cs) = (x = c \<and> startsWith xs cs)"

fun str_includes :: "string \<Rightarrow> string \<Rightarrow> bool" where
  \<comment> \<open>\<open>String.prototype.includes\<close>: the second string occurs somewhere in the first.\<close>
  "str_includes [] sub = (sub = [])"
| "str_includes (x # xs) sub = (startsWith (x # xs) sub \<or> str_includes xs sub)"

section \<open>Data model\<close>

record bridge_options =
  anthropicApiKey :: "string option"
  cacheEnabled :: bool
  cacheTtl :: real
  retryAttempts :: int
  retryDelay :: real
  maxTokens :: real
  defaultModel :: string

record message =
  role :: string
  content :: string

text \<open>
  The request \<open>proxyRequest\<close> and \<open>proxyRequestStream\<close> receive: the body of the call
  with the fields the server adds (\<open>requestId\<close>, \<open>headers\<close>). \<open>http_method\<close> is the
  field \<open>request.method\<close>; \<open>otherParams\<close> holds every further field.
\<close>

record request =
  model :: "string option"
  max_tokens :: "real option"
  temperature :: "real option"
  messages :: "message list option"
  system :: "string option"
  stop_sequences :: "string list option"
  requestId :: "string option"
  http_method :: "string option"
  headers :: "(string \<times> string) list"
  otherParams :: "(string \<times> string) list"

text \<open>The request in Claude API format, as \<open>transformToClaudeFormat\<close> builds it.\<close>

record claude_request =
  c_model :: string
  c_max_tokens :: real
  c_temperature :: real
  c_messages :: "message list"
  c_system :: "string option"
  c_stop_sequences :: "string list option"
  c_requestId :: "string option"
  c_http_method :: "string option"
  c_headers :: "(string \<times> string) list"
  c_otherParams :: "(string \<times> string) list"

text \<open>
  The payload of the GitHub Actions endpoint. The fields after \<open>gh_action\<close> are the
  rest of the destructuring (\<open>...otherParams\<close>): \<open>gh_messages\<close> is \<open>Some\<close> when the
  payload has a \<open>messages\<close> key of its own.
\<close>

record gh_request =
  gh_prompt :: "string option"
  gh_direct_prompt :: "string option"
  gh_model :: "string option"
  gh_max_tokens :: "real option"
  gh_temperature :: "real option"
  gh_system_prompt :: "string option"
  gh_context :: "string option"
  gh_action :: "string option"
  gh_messages :: "message list option"
  gh_system :: "string option"
  gh_stop_sequences :: "string list option"
  gh_requestId :: "string option"
  gh_http_method :: "string option"
  gh_headers :: "(string \<times> string) list"
  gh_otherParams :: "(string \<times> string) list"

record usage_info =
  input_tokens :: "nat option"
  output_tokens :: "nat option"

record content_block =
  block_type :: string
  block_text :: string

text \<open>
  A response object. The last four fields are the keys \<open>formatResponse\<close> spreads over
  the backend's answer (\<open>requestId\<close>, \<open>responseTime\<close>, \<open>fromCache\<close>, \<open>timestamp\<close>); a
  backend may set them itself. \<open>resp_timestamp\<close> is the instant the ISO string is
  printed from.
\<close>

record response =
  resp_content :: "content_block list"
  resp_model :: string
  resp_usage :: "usage_info option"
  resp_extra :: "(string \<times> string) list"
  resp_requestId :: "string option"
  resp_responseTime :: "real option"
  resp_fromCache :: "bool option"
  resp_timestamp :: "real option"

record cli_response =
  cli_content :: string
  cli_model :: string
  cli_usage :: "usage_info option"

record js_error =
  err_status :: "int option"
  err_code :: "string option"
  err_message :: "string option"

text \<open>
  The object \<open>proxyRequest\<close> and \<open>proxyRequestStream\<close> throw. \<open>be_retryable\<close> is the value
  of \<open>isRetryableError\<close>, which can be \<open>undefined\<close>; the streaming path sets no such key.
\<close>

record bridge_error =
  be_status :: int
  be_message :: string
  be_requestId :: "string option"
  be_responseTime :: real
  be_retryable :: "bool option"

datatype auth_method = Api | Sdk | Cli | NoAuth

datatype chunk = ContentBlockDelta "string option" | MessageStart | MessageStop | OtherChunk string

type_synonym event = "string \<times> string"

record metrics =
  requests :: nat
  cacheHits :: nat
  cacheMisses :: nat
  errors :: nat
  totalTokens :: nat
  averageResponseTime :: real
  lastRequestTime :: "real option"

record cache_entry =
  ce_value :: response
  ce_expires :: real

type_synonym cache_store = "string \<Rightarrow> cache_entry option"

text \<open>The instance: \<open>this.options\<close>, \<open>this.authMethod\<close>, \<open>this.cache\<close> (\<open>null\<close> when the cache
  is disabled) and \<open>this.metrics\<close>.\<close>

record bridge =
  options :: bridge_options
  authMethod :: auth_method
  cache :: "cache_store option"
  metrics :: metrics

text \<open>
  What the bridge does to its surroundings: the requests handed to a backend, one entry
  per invocation and in order; the delays slept between attempts; the calls of \<open>onChunk\<close>.
\<close>

record world =
  sent :: "claude_request list"
  sleeps :: "real list"
  events :: "event list"

text \<open>
  The collaborators outside the repository's files. A backend stub answers by the
  number of backend invocations made before (so it can fail on its first invocations
  and succeed later). \<open>sdk_execute\<close> stands for \<open>claudeSDK.execute\<close> after
  \<open>claudeSDK.transformRequest\<close>, \<open>cli_execute\<close> for \<open>claudeCLI.execute\<close> after
  \<open>claudeCLI.transformRequest\<close>. A streaming stub gives what it delivers and then how
  it ends (\<open>Some\<close> error when it throws). \<open>json_stringify\<close> and \<open>sha256_hex\<close> are
  \<open>JSON.stringify\<close> and the hex digest of \<open>crypto.createHash('sha256')\<close>.
\<close>

record key_data =
  k_model :: string
  k_messages :: "message list option"
  k_max_tokens :: "real option"
  k_temperature :: "real option"
  k_system :: "string option"

record env =
  api_create :: "nat \<Rightarrow> claude_request \<Rightarrow> js_error + response"
  sdk_execute :: "nat \<Rightarrow> claude_request \<Rightarrow> js_error + response"
  cli_execute :: "nat \<Rightarrow> claude_request \<Rightarrow> js_error + cli_response"
  api_stream :: "nat \<Rightarrow> claude_request \<Rightarrow> chunk list \<times> js_error option"
  sdk_stream :: "nat \<Rightarrow> claude_request \<Rightarrow> event list \<times> js_error option"
  cli_stream :: "nat \<Rightarrow> claude_request \<Rightarrow> event list \<times> js_error option"
  json_stringify :: "key_data \<Rightarrow> string"
  sha256_hex :: "string \<Rightarrow> string"

text \<open>What \<open>initializeAuthMethods\<close> finds at startup.\<close>

record startup_probe =
  sdk_module_loads :: bool
  sdk_isAvailable :: bool
  cli_module_loads :: bool
  which_claude_exit :: int

section \<open>Backend selection\<close>

definition cli_isAvailable :: "startup_probe \<Rightarrow> bool" where
  \<comment> \<open>\<open>ClaudeCodeCLI.isAvailable\<close>: \<open>which claude\<close> closes with exit code 0.\<close>
  "cli_isAvailable p = (which_claude_exit p = 0)"

definition initializeAuthMethods :: "bridge_options \<Rightarrow> startup_probe \<Rightarrow> auth_method" where
  \<comment> \<open>The value \<open>this.authMethod\<close> is left with. The second step catches a failing import
     or constructor; the third one sets \<open>'cli'\<close> as soon as the module is imported.\<close>
  "initializeAuthMethods opts p =
     (if truthy (anthropicApiKey opts) then Api
      else if sdk_module_loads p \<and> sdk_isAvailable p then Sdk
      else if cli_module_loads p then Cli
      else NoAuth)"

section \<open>Request normalisation\<close>

definition transformGitHubActionsRequest :: "bridge_options \<Rightarrow> gh_request \<Rightarrow> request" where
  "transformGitHubActionsRequest opts g =
     (let messages0 = [];
          messages1 = (if truthy (gh_system_prompt g)
                       then messages0 @ [\<lparr>role = ''system'', content = the (gh_system_prompt g)\<rparr>]
                       else messages0);
          messages2 = (if truthy (gh_context g)
                       then messages1 @ [\<lparr>role = ''user'', content = ''Context: '' @ the (gh_context g)\<rparr>]
                       else messages1);
          mainPrompt = (if truthy (gh_direct_prompt g) then gh_direct_prompt g else gh_prompt g);
          messages3 = (if truthy mainPrompt
                       then messages2 @ [\<lparr>role = ''user'', content = the mainPrompt\<rparr>]
                       else messages2)
      in \<lparr>model = Some (case gh_model g of None \<Rightarrow> defaultModel opts | Some m \<Rightarrow> m),
          max_tokens = Some (case gh_max_tokens g of None \<Rightarrow> maxTokens opts | Some n \<Rightarrow> n),
          temperature = Some (case gh_temperature g of None \<Rightarrow> 3 / 10 | Some t \<Rightarrow> t),
          messages = (case gh_messages g of None \<Rightarrow> Some messages3 | Some ms \<Rightarrow> Some ms),
          system = gh_system g,
          stop_sequences = gh_stop_sequences g,
          requestId = gh_requestId g,
          http_method = gh_http_method g,
          headers = gh_headers g,
          otherParams =
            (''action'', case gh_action g of None \<Rightarrow> ''chat'' | Some a \<Rightarrow> a) # gh_otherParams g\<rparr>)"

definition transformToClaudeFormat :: "bridge_options \<Rightarrow> request \<Rightarrow> claude_request" where
  "transformToClaudeFormat opts r =
     \<lparr>c_model = (case model r of None \<Rightarrow> defaultModel opts | Some m \<Rightarrow> m),
      c_max_tokens = min (case max_tokens r of None \<Rightarrow> maxTokens opts | Some n \<Rightarrow> n) 8192,
      c_temperature = max 0 (min 1 (case temperature r of None \<Rightarrow> 3 / 10 | Some t \<Rightarrow> t)),
      c_messages = (case messages r of None \<Rightarrow> [] | Some ms \<Rightarrow> ms),
      c_system = (if truthy (system r) then system r else None),
      c_stop_sequences = stop_sequences r,
      c_requestId = requestId r,
      c_http_method = http_method r,
      c_headers = headers r,
      c_otherParams = otherParams r\<rparr>"

section \<open>Cache key\<close>

definition keyData :: "bridge_options \<Rightarrow> request \<Rightarrow> key_data" where
  "keyData opts r =
     \<lparr>k_model = (if truthy (model r) then the (model r) else defaultModel opts),
      k_messages = messages r,
      k_max_tokens = max_tokens r,
      k_temperature = temperature r,
      k_system = system r\<rparr>"

definition generateCacheKey :: "env \<Rightarrow> bridge_options \<Rightarrow> request \<Rightarrow> string" where
  "generateCacheKey ev opts r =
     ''claude_'' @ take 16 (sha256_hex ev (json_stringify ev (keyData opts r)))"

section \<open>Error classification\<close>

definition retryableStatuses :: "int list" where
  "retryableStatuses = [429, 500, 502, 503, 504]"

definition retryableErrors :: "string list" where
  "retryableErrors = [''ECONNRESET'', ''ETIMEDOUT'', ''ENOTFOUND'']"

definition isRetryableError :: "js_error \<Rightarrow> bool option" where
  \<comment> \<open>The value of the \<open>||\<close> chain: \<open>message?.includes\<close> is \<open>undefined\<close> without a message.\<close>
  "isRetryableError e =
     (if (case err_status e of None \<Rightarrow> False | Some s \<Rightarrow> s \<in> set retryableStatuses) then Some True
      else if (case err_code e of None \<Rightarrow> False | Some c \<Rightarrow> c \<in> set retryableErrors) then Some True
      else (case err_message e of
              None \<Rightarrow> None
            | Some m \<Rightarrow> if str_includes m ''rate limit'' then Some True
                        else Some (str_includes m ''timeout'')))"

definition structured_error :: "request \<Rightarrow> real \<Rightarrow> js_error \<Rightarrow> bridge_error" where
  \<comment> \<open>The object thrown by the \<open>catch\<close> of \<open>proxyRequest\<close>.\<close>
  "structured_error r responseTime e =
     \<lparr>be_status = (case err_status e of None \<Rightarrow> 500 | Some s \<Rightarrow> if s = 0 then 500 else s),
      be_message = (if truthy (err_message e) then the (err_message e) else ''Request failed''),
      be_requestId = requestId r,
      be_responseTime = responseTime,
      be_retryable = isRetryableError e\<rparr>"

definition stream_error :: "request \<Rightarrow> real \<Rightarrow> js_error \<Rightarrow> bridge_error" where
  \<comment> \<open>The object thrown by the \<open>catch\<close> of \<open>proxyRequestStream\<close>.\<close>
  "stream_error r responseTime e =
     \<lparr>be_status = (case err_status e of None \<Rightarrow> 500 | Some s \<Rightarrow> if s = 0 then 500 else s),
      be_message = (if truthy (err_message e) then the (err_message e) else ''Streaming request failed''),
      be_requestId = requestId r,
      be_responseTime = responseTime,
      be_retryable = None\<rparr>"

section \<open>Retry controller\<close>

definition no_auth_error :: js_error where
  \<comment> \<open>The \<open>Error\<close> of the \<open>default\<close> branch of the switch, with \<open>authMethod\<close> being \<open>'none'\<close>.\<close>
  "no_auth_error =
     \<lparr>err_status = None, err_code = None,
      err_message = Some (''No authentication method available. Current method: none. '' @
                          ''Please provide ANTHROPIC_API_KEY or install Claude Code SDK/CLI.'')\<rparr>"

definition cli_to_api :: "cli_response \<Rightarrow> response" where
  \<comment> \<open>The CLI answer put into API format.\<close>
  "cli_to_api c =
     \<lparr>resp_content = [\<lparr>block_type = ''text'', block_text = cli_content c\<rparr>],
      resp_model = cli_model c,
      resp_usage = cli_usage c,
      resp_extra = [(''role'', ''assistant''), (''type'', ''message'')],
      resp_requestId = None, resp_responseTime = None, resp_fromCache = None,
      resp_timestamp = None\<rparr>"

definition callBackend ::
  "env \<Rightarrow> auth_method \<Rightarrow> claude_request \<Rightarrow> world \<Rightarrow> (js_error + response) \<times> world" where
  \<comment> \<open>The \<open>try\<close> block of \<open>executeWithRetry\<close>: one attempt on the pinned backend.\<close>
  "callBackend ev am creq w =
     (case am of
        Api \<Rightarrow> (api_create ev (length (sent w)) creq, w\<lparr>sent := sent w @ [creq]\<rparr>)
      | Sdk \<Rightarrow> (sdk_execute ev (length (sent w)) creq, w\<lparr>sent := sent w @ [creq]\<rparr>)
      | Cli \<Rightarrow> ((case cli_execute ev (length (sent w)) creq of
                   Inl e \<Rightarrow> Inl e
                 | Inr c \<Rightarrow> Inr (cli_to_api c)), w\<lparr>sent := sent w @ [creq]\<rparr>)
      | NoAuth \<Rightarrow> (Inl no_auth_error, w))"

definition backoff :: "bridge_options \<Rightarrow> nat \<Rightarrow> real" where
  \<comment> \<open>\<open>retryDelay * Math.pow(2, attempt - 1)\<close>; \<open>attempt\<close> starts at 1.\<close>
  "backoff opts attempt = retryDelay opts * 2 ^ (attempt - 1)"

function executeWithRetry ::
  "env \<Rightarrow> bridge_options \<Rightarrow> auth_method \<Rightarrow> claude_request \<Rightarrow> nat \<Rightarrow> world
     \<Rightarrow> (js_error + response) \<times> world" where
  "executeWithRetry ev opts am creq attempt w =
     (case callBackend ev am creq w of
        (Inr response, w1) \<Rightarrow> (Inr response, w1)
      | (Inl e, w1) \<Rightarrow>
          if int attempt < retryAttempts opts \<and> isRetryableError e = Some True
          then executeWithRetry ev opts am creq (attempt + 1)
                 (w1\<lparr>sleeps := sleeps w1 @ [backoff opts attempt]\<rparr>)
          else (Inl e, w1))"
  by pat_completeness auto
termination
  by (relation "measure (\<lambda>(ev, opts, am, creq, attempt, w). nat (retryAttempts opts - int attempt))")
     auto

section \<open>Streaming\<close>

definition no_auth_stream_error :: js_error where
  "no_auth_stream_error =
     \<lparr>err_status = None, err_code = None,
      err_message = Some (''No authentication method available for streaming. Current method: none. '' @
                          ''Please provide ANTHROPIC_API_KEY or install Claude Code SDK/CLI.'')\<rparr>"

fun relayChunk :: "chunk \<Rightarrow> event list" where
  \<comment> \<open>One turn of the loop of \<open>streamAnthropicAPI\<close>: the calls of \<open>onChunk\<close> for one chunk.\<close>
  "relayChunk (ContentBlockDelta t) = (if truthy t then [(the t, ''content'')] else [])"
| "relayChunk MessageStart = [('''', ''start'')]"
| "relayChunk MessageStop = [('''', ''stop'')]"
| "relayChunk (OtherChunk ty) = []"

definition streamAnthropicAPI :: "env \<Rightarrow> nat \<Rightarrow> claude_request \<Rightarrow> event list \<times> js_error option" where
  \<comment> \<open>\<open>api_stream\<close> is \<open>anthropic.messages.create\<close> with \<open>stream: true\<close> and its iteration.\<close>
  "streamAnthropicAPI ev i creq =
     (case api_stream ev i creq of (chunks, ending) \<Rightarrow> (concat (map relayChunk chunks), ending))"

definition callBackendStream ::
  "env \<Rightarrow> auth_method \<Rightarrow> claude_request \<Rightarrow> world \<Rightarrow> js_error option \<times> world" where
  \<comment> \<open>The \<open>try\<close> block of \<open>executeStreamWithRetry\<close>: one streaming attempt.\<close>
  "callBackendStream ev am creq w =
     (case am of
        Api \<Rightarrow> (case streamAnthropicAPI ev (length (sent w)) creq of
                  (evs, ending) \<Rightarrow> (ending, w\<lparr>sent := sent w @ [creq], events := events w @ evs\<rparr>))
      | Sdk \<Rightarrow> (case sdk_stream ev (length (sent w)) creq of
                  (evs, ending) \<Rightarrow> (ending, w\<lparr>sent := sent w @ [creq], events := events w @ evs\<rparr>))
      | Cli \<Rightarrow> (case cli_stream ev (length (sent w)) creq of
                  (evs, ending) \<Rightarrow> (ending, w\<lparr>sent := sent w @ [creq], events := events w @ evs\<rparr>))
      | NoAuth \<Rightarrow> (Some no_auth_stream_error, w))"

function executeStreamWithRetry ::
  "env \<Rightarrow> bridge_options \<Rightarrow> auth_method \<Rightarrow> claude_request \<Rightarrow> nat \<Rightarrow> world
     \<Rightarrow> js_error option \<times> world" where
  "executeStreamWithRetry ev opts am creq attempt w =
     (case callBackendStream ev am creq w of
        (None, w1) \<Rightarrow> (None, w1)
      | (Some e, w1) \<Rightarrow>
          if int attempt < retryAttempts opts \<and> isRetryableError e = Some True
          then executeStreamWithRetry ev opts am creq (attempt + 1)
                 (w1\<lparr>sleeps := sleeps w1 @ [backoff opts attempt]\<rparr>)
          else (Some e, w1))"
  by pat_completeness auto
termination
  by (relation "measure (\<lambda>(ev, opts, am, creq, attempt, w). nat (retryAttempts opts - int attempt))")
     auto

definition error_event :: "js_error \<Rightarrow> event" where
  \<comment> \<open>The call of \<open>onChunk\<close> in the \<open>catch\<close> of \<open>proxyRequestStream\<close>.\<close>
  "error_event e =
     (''ERROR: '' @ (if truthy (err_message e) then the (err_message e) else ''Stream failed''),
      ''error'')"

definition proxyRequestStream ::
  "env \<Rightarrow> bridge \<Rightarrow> world \<Rightarrow> request \<Rightarrow> real \<Rightarrow> real \<Rightarrow> (bridge_error + unit) \<times> bridge \<times> world" where
  \<comment> \<open>\<open>t0\<close> is the clock on entry, \<open>t1\<close> the clock when the backend call is over; the caller
     passes an \<open>onChunk\<close>, whose calls are the events of the world.\<close>
  "proxyRequestStream ev b w r t0 t1 =
     (let b1 = b\<lparr>metrics := (metrics b)\<lparr>requests := requests (metrics b) + 1,
                                          lastRequestTime := Some t0\<rparr>\<rparr>;
          claudeRequest = transformToClaudeFormat (options b) r
      in case executeStreamWithRetry ev (options b) (authMethod b) claudeRequest 1 w of
           (None, w1) \<Rightarrow> (Inr (), b1, w1)
         | (Some e, w1) \<Rightarrow>
             (Inl (stream_error r (t1 - t0) e),
              b1\<lparr>metrics := (metrics b1)\<lparr>errors := errors (metrics b1) + 1\<rparr>\<rparr>,
              w1\<lparr>events := events w1 @ [error_event e]\<rparr>))"

section \<open>Cache, metrics and the non-streaming call\<close>

text \<open>
  The bridge keeps its entries in a \<open>NodeCache\<close> (package node-cache), which is not among
  the repository's files. The store below follows the spec's cache entry: a value, its
  insertion time and a time-to-live, with expiry checked on read.
\<close>

definition cache_get :: "cache_store \<Rightarrow> string \<Rightarrow> real \<Rightarrow> response option" where
  \<comment> \<open>Modelled from the spec: \<open>cache.get(key)\<close> of the node-cache store, read at the instant
     \<open>now\<close>. An entry whose expiry has passed is a miss; expiry 0 never passes.\<close>
  "cache_get c k now =
     (case c k of
        None \<Rightarrow> None
      | Some e \<Rightarrow> if ce_expires e \<noteq> 0 \<and> ce_expires e < now then None else Some (ce_value e))"

definition cache_set :: "cache_store \<Rightarrow> string \<Rightarrow> response \<Rightarrow> real \<Rightarrow> real \<Rightarrow> cache_store" where
  \<comment> \<open>Modelled from the spec: \<open>cache.set(key, value, ttl)\<close> of the node-cache store, at the
     instant \<open>now\<close> (milliseconds) with \<open>ttl\<close> in seconds; the entry replaces any older one
     for the key, and a time-to-live of 0 gives expiry 0.\<close>
  "cache_set c k v ttl now =
     c(k \<mapsto> \<lparr>ce_value = v, ce_expires = (if ttl = 0 then 0 else now + ttl * 1000)\<rparr>)"

datatype meta = MRequestId "string option" | MResponseTime real | MFromCache bool

fun spread_meta :: "response \<Rightarrow> meta \<Rightarrow> response" where
  \<comment> \<open>One key of the \<open>metadata\<close> object spread over the response.\<close>
  "spread_meta r (MRequestId i) = r\<lparr>resp_requestId := i\<rparr>"
| "spread_meta r (MResponseTime t) = r\<lparr>resp_responseTime := Some t\<rparr>"
| "spread_meta r (MFromCache f) = r\<lparr>resp_fromCache := Some f\<rparr>"

definition formatResponse :: "response \<Rightarrow> meta list \<Rightarrow> real \<Rightarrow> response" where
  \<comment> \<open>\<open>{...response, ...metadata, timestamp}\<close>, printed at the instant \<open>now\<close>.\<close>
  "formatResponse r metadata now = (foldl spread_meta r metadata)\<lparr>resp_timestamp := Some now\<rparr>"

definition token_count :: "nat option \<Rightarrow> nat" where
  \<comment> \<open>\<open>tokens || 0\<close>\<close>
  "token_count t = (case t of None \<Rightarrow> 0 | Some n \<Rightarrow> n)"

definition updateMetrics :: "metrics \<Rightarrow> response \<Rightarrow> real \<Rightarrow> metrics" where
  "updateMetrics m r responseTime =
     (let m1 = (case resp_usage r of
                  None \<Rightarrow> m
                | Some u \<Rightarrow> m\<lparr>totalTokens := totalTokens m
                                  + (token_count (input_tokens u) + token_count (output_tokens u))\<rparr>);
          currentAvg = averageResponseTime m1;
          n = real (requests m1)
      in m1\<lparr>averageResponseTime := (currentAvg * (n - 1) + responseTime) / n\<rparr>)"

definition cache_lookup :: "env \<Rightarrow> bridge \<Rightarrow> request \<Rightarrow> real \<Rightarrow> response option" where
  \<comment> \<open>The value of \<open>cached\<close> where the cache is consulted; \<open>None\<close> also where it is not.\<close>
  "cache_lookup ev b r now =
     (case cache b of
        None \<Rightarrow> None
      | Some c \<Rightarrow> if http_method r \<noteq> Some ''POST''
                  then cache_get c (generateCacheKey ev (options b) r) now else None)"

definition proxyRequest ::
  "env \<Rightarrow> bridge \<Rightarrow> world \<Rightarrow> request \<Rightarrow> real \<Rightarrow> real
     \<Rightarrow> (bridge_error + response) \<times> bridge \<times> world" where
  \<comment> \<open>\<open>t0\<close> is the clock on entry, \<open>t1\<close> the clock when the backend call is over.\<close>
  "proxyRequest ev b w r t0 t1 =
     (let b1 = b\<lparr>metrics := (metrics b)\<lparr>requests := requests (metrics b) + 1,
                                          lastRequestTime := Some t0\<rparr>\<rparr>;
          cacheKey = generateCacheKey ev (options b) r
      in case cache_lookup ev b r t0 of
           Some cached \<Rightarrow>
             (Inr (formatResponse cached [MFromCache True] t0),
              b1\<lparr>metrics := (metrics b1)\<lparr>cacheHits := cacheHits (metrics b1) + 1\<rparr>\<rparr>, w)
         | None \<Rightarrow>
             (let b2 = (if cache b \<noteq> None \<and> http_method r \<noteq> Some ''POST''
                        then b1\<lparr>metrics := (metrics b1)\<lparr>cacheMisses := cacheMisses (metrics b1) + 1\<rparr>\<rparr>
                        else b1);
                  claudeRequest = transformToClaudeFormat (options b) r
              in case executeWithRetry ev (options b) (authMethod b) claudeRequest 1 w of
                   (Inr response, w1) \<Rightarrow>
                     (let responseTime = t1 - t0;
                          b3 = b2\<lparr>metrics := updateMetrics (metrics b2) response responseTime\<rparr>;
                          b4 = (case cache b3 of
                                  None \<Rightarrow> b3
                                | Some c \<Rightarrow>
                                    if resp_usage response \<noteq> None
                                    then b3\<lparr>cache := Some (cache_set c cacheKey response
                                                               (cacheTtl (options b)) t1)\<rparr>
                                    else b3)
                      in (Inr (formatResponse response
                                 [MRequestId (requestId r), MResponseTime responseTime] t1),
                          b4, w1))
                 | (Inl e, w1) \<Rightarrow>
                     (Inl (structured_error r (t1 - t0) e),
                      b2\<lparr>metrics := (metrics b2)\<lparr>errors := errors (metrics b2) + 1\<rparr>\<rparr>, w1)))"

section \<open>Auxiliary notions for the statements\<close>

definition backend_answer :: "env \<Rightarrow> auth_method \<Rightarrow> nat \<Rightarrow> claude_request \<Rightarrow> js_error + response" where
  \<comment> \<open>What an attempt on the pinned backend yields when \<open>i\<close> invocations were made before.\<close>
  "backend_answer ev am i creq = fst (callBackend ev am creq \<lparr>sent = replicate i creq, sleeps = [], events = []\<rparr>)"

definition counted_miss :: "bridge \<Rightarrow> request \<Rightarrow> real \<Rightarrow> bridge" where
  \<comment> \<open>The instance once \<open>proxyRequest\<close> has counted a request that is not answered from
     the cache: one request more, and one miss more where the cache was consulted.\<close>
  "counted_miss b r t0 =
     (if cache b \<noteq> None \<and> http_method r \<noteq> Some ''POST''
      then b\<lparr>metrics := (metrics b)\<lparr>requests := requests (metrics b) + 1,
                                      lastRequestTime := Some t0,
                                      cacheMisses := cacheMisses (metrics b) + 1\<rparr>\<rparr>
      else b\<lparr>metrics := (metrics b)\<lparr>requests := requests (metrics b) + 1,
                                      lastRequestTime := Some t0\<rparr>\<rparr>)"

definition attempt_events :: "env \<Rightarrow> auth_method \<Rightarrow> nat \<Rightarrow> claude_request \<Rightarrow> event list" where
  \<comment> \<open>The calls of \<open>onChunk\<close> during the streaming attempt made after \<open>i\<close> invocations.\<close>
  "attempt_events ev am i creq =
     events (snd (callBackendStream ev am creq \<lparr>sent = replicate i creq, sleeps = [], events = []\<rparr>))"



section \<open>The platform's serialisation and digest\<close>

text \<open>
  \<open>JSON.stringify\<close> on the key object and the SHA-256 hex digest of Node's \<open>crypto\<close>, for
  concrete runs of \<open>generateCacheKey\<close>. Numbers are printed in decimal notation, which is
  what JavaScript prints for the decimal literals of a JSON body whose magnitude lies
  between \<open>1e-6\<close> and \<open>1e21\<close>. A string is its sequence of UTF-8 bytes. The 32-bit words of
  SHA-256 are natural numbers with the wrap-around written out.
\<close>

definition dquote :: char where
  "dquote = CHR 0x22"

definition backslash :: char where
  "backslash = CHR 0x5C"

definition hex_digit :: "nat \<Rightarrow> char" where
  "hex_digit n = ''0123456789abcdef'' ! n"

definition json_escape :: "char \<Rightarrow> string" where
  \<comment> \<open>One character of a quoted JSON string.\<close>
  "json_escape c =
     (if c = dquote then [backslash, dquote]
      else if c = backslash then [backslash, backslash]
      else if c = CHR 0x08 then [backslash, CHR ''b'']
      else if c = CHR 0x0C then [backslash, CHR ''f'']
      else if c = CHR 0x0A then [backslash, CHR ''n'']
      else if c = CHR 0x0D then [backslash, CHR ''r'']
      else if c = CHR 0x09 then [backslash, CHR ''t'']
      else if (of_char c :: nat) < 32
      then [backslash, CHR ''u'', CHR ''0'', CHR ''0'',
            hex_digit (of_char c div 16), hex_digit (of_char c mod 16)]
      else [c])"

definition json_quote :: "string \<Rightarrow> string" where
  "json_quote s = [dquote] @ concat (map json_escape s) @ [dquote]"

function decimal :: "nat \<Rightarrow> string" where
  "decimal n = (if n < 10 then [hex_digit n] else decimal (n div 10) @ [hex_digit (n mod 10)])"
  by pat_completeness auto
termination
  by (relation "measure (\<lambda>n. n)") auto

declare decimal.simps [simp del]

function fraction_digits :: "nat \<Rightarrow> real \<Rightarrow> string" where
  \<comment> \<open>The digits after the decimal point, at most as many as the first argument.\<close>
  "fraction_digits n x =
     (if n = 0 \<or> x = 0 then []
      else hex_digit (nat \<lfloor>x * 10\<rfloor>) # fraction_digits (n - 1) (x * 10 - of_int \<lfloor>x * 10\<rfloor>))"
  by pat_completeness auto
termination
  by (relation "measure (\<lambda>(n, x). n)") auto

declare fraction_digits.simps [simp del]

definition number_to_string :: "real \<Rightarrow> string" where
  "number_to_string x =
     (if x < 0 then ''-'' else []) @ decimal (nat \<lfloor>\<bar>x\<bar>\<rfloor>)
     @ (if \<bar>x\<bar> = of_int \<lfloor>\<bar>x\<bar>\<rfloor> then []
        else ''.'' @ fraction_digits 20 (\<bar>x\<bar> - of_int \<lfloor>\<bar>x\<bar>\<rfloor>))"

fun join_with :: "string \<Rightarrow> string list \<Rightarrow> string" where
  "join_with sep [] = []"
| "join_with sep [x] = x"
| "join_with sep (x # y # ys) = x @ sep @ join_with sep (y # ys)"

definition json_member :: "string \<Rightarrow> string \<Rightarrow> string" where
  "json_member k v = json_quote k @ '':'' @ v"

definition json_message :: "message \<Rightarrow> string" where
  \<comment> \<open>A message is an object with the keys \<open>role\<close> and \<open>content\<close>, in this order.\<close>
  "json_message m =
     ''{'' @ join_with '','' [json_member ''role'' (json_quote (role m)),
                              json_member ''content'' (json_quote (content m))] @ ''}''"

definition json_stringify_keyData :: "key_data \<Rightarrow> string" where
  \<comment> \<open>\<open>JSON.stringify(keyData)\<close>: the members in the order of the object literal, a member
     whose value is \<open>undefined\<close> left out.\<close>
  "json_stringify_keyData k =
     ''{'' @ join_with '',''
       ([json_member ''model'' (json_quote (k_model k))]
        @ (case k_messages k of
             None \<Rightarrow> []
           | Some ms \<Rightarrow> [json_member ''messages''
                           (''['' @ join_with '','' (map json_message ms) @ '']'')])
        @ (case k_max_tokens k of None \<Rightarrow> [] | Some n \<Rightarrow> [json_member ''max_tokens'' (number_to_string n)])
        @ (case k_temperature k of None \<Rightarrow> [] | Some t \<Rightarrow> [json_member ''temperature'' (number_to_string t)])
        @ (case k_system k of None \<Rightarrow> [] | Some s \<Rightarrow> [json_member ''system'' (json_quote s)]))
     @ ''}''"

definition add32 :: "nat \<Rightarrow> nat \<Rightarrow> nat" where
  "add32 x y = (x + y) mod 4294967296"

definition rotr :: "nat \<Rightarrow> nat \<Rightarrow> nat" where
  \<comment> \<open>Rotation of a 32-bit word to the right.\<close>
  "rotr n x = x div 2 ^ n + (x mod 2 ^ n) * 2 ^ (32 - n)"

definition shr :: "nat \<Rightarrow> nat \<Rightarrow> nat" where
  "shr n x = x div 2 ^ n"

definition sha_k :: "nat list" where
  \<comment> \<open>The round constants: the first 32 bits of the fractional parts of the cube roots
     of the first 64 primes.\<close>
  "sha_k =
   [1116352408, 1899447441, 3049323471, 3921009573, 961987163, 1508970993,
    2453635748, 2870763221, 3624381080, 310598401, 607225278, 1426881987,
    1925078388, 2162078206, 2614888103, 3248222580, 3835390401, 4022224774,
    264347078, 604807628, 770255983, 1249150122, 1555081692, 1996064986,
    2554220882, 2821834349, 2952996808, 3210313671, 3336571891, 3584528711,
    113926993, 338241895, 666307205, 773529912, 1294757372, 1396182291,
    1695183700, 1986661051, 2177026350, 2456956037, 2730485921, 2820302411,
    3259730800, 3345764771, 3516065817, 3600352804, 4094571909, 275423344,
    430227734, 506948616, 659060556, 883997877, 958139571, 1322822218,
    1537002063, 1747873779, 1955562222, 2024104815, 2227730452, 2361852424,
    2428436474, 2756734187, 3204031479, 3329325298]"

definition sha_init :: "nat list" where
  \<comment> \<open>The initial hash value: the first 32 bits of the fractional parts of the square
     roots of the first 8 primes.\<close>
  "sha_init =
   [1779033703, 3144134277, 1013904242, 2773480762, 1359893119, 2600822924,
    528734635, 1541459225]"

definition ssig0 :: "nat \<Rightarrow> nat" where
  "ssig0 x = xor (xor (rotr 7 x) (rotr 18 x)) (shr 3 x)"

definition ssig1 :: "nat \<Rightarrow> nat" where
  "ssig1 x = xor (xor (rotr 17 x) (rotr 19 x)) (shr 10 x)"

definition bsig0 :: "nat \<Rightarrow> nat" where
  "bsig0 x = xor (xor (rotr 2 x) (rotr 13 x)) (rotr 22 x)"

definition bsig1 :: "nat \<Rightarrow> nat" where
  "bsig1 x = xor (xor (rotr 6 x) (rotr 11 x)) (rotr 25 x)"

definition ch :: "nat \<Rightarrow> nat \<Rightarrow> nat \<Rightarrow> nat" where
  "ch x y z = xor (and x y) (and (4294967295 - x) z)"

definition maj :: "nat \<Rightarrow> nat \<Rightarrow> nat \<Rightarrow> nat" where
  "maj x y z = xor (xor (and x y) (and x z)) (and y z)"

fun next_state :: "nat \<Rightarrow> nat \<Rightarrow> nat list \<Rightarrow> nat list" where
  "next_state t1 t2 [a, b, c, d, e, f, g, h] = [add32 t1 t2, a, b, c, add32 d t1, e, f, g]"
| "next_state t1 t2 s = s"

fun rounds :: "nat list \<Rightarrow> nat list \<Rightarrow> nat list \<Rightarrow> nat list" where
  \<comment> \<open>One round per constant; \<open>ws\<close> holds the next sixteen words of the message schedule.\<close>
  "rounds [a, b, c, d, e, f, g, h] (k # ks) ws =
     rounds (next_state (add32 (add32 (add32 (add32 h (bsig1 e)) (ch e f g)) k) (ws ! 0))
                        (add32 (bsig0 a) (maj a b c))
               [a, b, c, d, e, f, g, h]) ks
       (tl ws @ [add32 (add32 (add32 (ssig1 (ws ! 14)) (ws ! 9)) (ssig0 (ws ! 1))) (ws ! 0)])"
| "rounds s ks ws = s"

definition compress :: "nat list \<Rightarrow> nat list \<Rightarrow> nat list" where
  "compress s block = map2 add32 s (rounds s sha_k block)"

fun be_words :: "nat list \<Rightarrow> nat list" where
  \<comment> \<open>Bytes to big-endian 32-bit words.\<close>
  "be_words (a # b # c # d # bs) = (((a * 256 + b) * 256 + c) * 256 + d) # be_words bs"
| "be_words bs = []"

function zeros :: "nat \<Rightarrow> nat list" where
  "zeros n = (if n = 0 then [] else 0 # zeros (n - 1))"
  by pat_completeness auto
termination
  by (relation "measure (\<lambda>n. n)") auto

declare zeros.simps [simp del]

definition sha_pad :: "nat list \<Rightarrow> nat list" where
  \<comment> \<open>The byte 0x80, zeros up to 56 modulo 64, and the bit length in eight bytes.\<close>
  "sha_pad bs =
     bs @ [128] @ zeros ((119 - length bs mod 64) mod 64)
     @ map (\<lambda>i. (8 * length bs) div 256 ^ i mod 256) [7, 6, 5, 4, 3, 2, 1, 0]"

function sha_blocks :: "nat list \<Rightarrow> nat list \<Rightarrow> nat list" where
  "sha_blocks s ws = (if ws = [] then s else sha_blocks (compress s (take 16 ws)) (drop 16 ws))"
  by pat_completeness auto
termination
  by (relation "measure (\<lambda>(s, ws). length ws)") auto

declare sha_blocks.simps [simp del]

definition hex32 :: "nat \<Rightarrow> string" where
  "hex32 x = map (\<lambda>i. hex_digit (x div 16 ^ i mod 16)) [7, 6, 5, 4, 3, 2, 1, 0]"

definition sha256_hex_digest :: "string \<Rightarrow> string" where
  "sha256_hex_digest s = concat (map hex32 (sha_blocks sha_init (be_words (sha_pad (map of_char s)))))"

section \<open>Concrete inputs\<close>

definition ex_options :: bridge_options where
  \<comment> \<open>The constructor's defaults, with an API key.\<close>
  "ex_options =
     \<lparr>anthropicApiKey = Some ''sk-ant-test'', cacheEnabled = True, cacheTtl = 300,
      retryAttempts = 3, retryDelay = 1000, maxTokens = 4096,
      defaultModel = ''claude-sonnet-4-20250514''\<rparr>"

definition ex_request :: request where
  "ex_request =
     \<lparr>model = Some ''m1'', max_tokens = Some 50, temperature = None,
      messages = Some [\<lparr>role = ''user'', content = ''hi''\<rparr>], system = None,
      stop_sequences = None, requestId = Some ''req_1'', http_method = None,
      headers = [], otherParams = []\<rparr>"

definition ex_response :: response where
  "ex_response =
     \<lparr>resp_content = [\<lparr>block_type = ''text'', block_text = ''hello''\<rparr>], resp_model = ''m1'',
      resp_usage = Some \<lparr>input_tokens = Some 3, output_tokens = Some 5\<rparr>, resp_extra = [],
      resp_requestId = None, resp_responseTime = None, resp_fromCache = None,
      resp_timestamp = None\<rparr>"

definition ex_transient :: js_error where
  "ex_transient = \<lparr>err_status = Some 503, err_code = None, err_message = Some ''Service Unavailable''\<rparr>"

definition ex_auth_error :: js_error where
  "ex_auth_error = \<lparr>err_status = Some 401, err_code = None, err_message = Some ''invalid x-api-key''\<rparr>"

definition stub_env ::
  "(nat \<Rightarrow> js_error + response) \<Rightarrow> (nat \<Rightarrow> chunk list \<times> js_error option) \<Rightarrow> env" where
  \<comment> \<open>Backends that answer by the invocation count alone, on the platform's
     serialisation and digest.\<close>
  "stub_env answer stream =
     \<lparr>api_create = (\<lambda>i creq. answer i),
      sdk_execute = (\<lambda>i creq. answer i),
      cli_execute = (\<lambda>i creq. Inl ex_auth_error),
      api_stream = (\<lambda>i creq. stream i),
      sdk_stream = (\<lambda>i creq. ([], None)),
      cli_stream = (\<lambda>i creq. ([], None)),
      json_stringify = json_stringify_keyData,
      sha256_hex = sha256_hex_digest\<rparr>"

definition flaky :: "nat \<Rightarrow> nat \<Rightarrow> js_error + response" where
  \<comment> \<open>Fails with a transient error on its first \<open>n\<close> invocations, then succeeds.\<close>
  "flaky n i = (if i < n then Inl ex_transient else Inr ex_response)"

definition no_stream :: "nat \<Rightarrow> chunk list \<times> js_error option" where
  "no_stream i = ([], None)"

definition ex_bridge :: bridge where
  \<comment> \<open>The instance as the constructor leaves it.\<close>
  "ex_bridge =
     \<lparr>options = ex_options, authMethod = Api, cache = Some Map.empty,
      metrics = \<lparr>requests = 0, cacheHits = 0, cacheMisses = 0, errors = 0, totalTokens = 0,
                 averageResponseTime = 0, lastRequestTime = None\<rparr>\<rparr>"

definition ex_world :: world where
  "ex_world = \<lparr>sent = [], sleeps = [], events = []\<rparr>"

definition ex_env :: env where
  \<comment> \<open>A backend that answers every invocation with \<open>ex_response\<close>.\<close>
  "ex_env = stub_env (flaky 0) no_stream"

definition first_call :: "(bridge_error + response) \<times> bridge \<times> world" where
  "first_call = proxyRequest ex_env ex_bridge ex_world ex_request 0 25"

definition second_call :: "(bridge_error + response) \<times> bridge \<times> world" where
  \<comment> \<open>The same request once more, right after the first call.\<close>
  "second_call = proxyRequest ex_env (fst (snd first_call)) (snd (snd first_call))
                   ex_request 25 26"

definition failing_env :: env where
  \<comment> \<open>A backend that raises an authentication error on every invocation.\<close>
  "failing_env = stub_env (\<lambda>i. Inl ex_auth_error) no_stream"

definition failed_call :: "(bridge_error + response) \<times> bridge \<times> world" where
  "failed_call = proxyRequest failing_env ex_bridge ex_world ex_request 0 25"

definition repeated_call :: "(bridge_error + response) \<times> bridge \<times> world" where
  "repeated_call = proxyRequest failing_env (fst (snd failed_call)) (snd (snd failed_call))
                     ex_request 30 55"

definition empty_payload :: gh_request where
  "empty_payload =
     \<lparr>gh_prompt = None, gh_direct_prompt = None, gh_model = None, gh_max_tokens = None,
      gh_temperature = None, gh_system_prompt = None, gh_context = None, gh_action = None,
      gh_messages = None, gh_system = None, gh_stop_sequences = None, gh_requestId = None,
      gh_http_method = None, gh_headers = [], gh_otherParams = []\<rparr>"



definition third_call :: "(bridge_error + response) \<times> bridge \<times> world" where
  \<comment> \<open>The same request after the time-to-live, answered by the backend after 400 ms.\<close>
  "third_call = proxyRequest ex_env (fst (snd second_call)) (snd (snd second_call))
                  ex_request 400000 400400"

definition oversized_request :: request where
  \<comment> \<open>\<open>ex_request\<close> asking for more tokens than the ceiling allows.\<close>
  "oversized_request = ex_request\<lparr>max_tokens := Some 999999\<rparr>"

definition ceiling_request :: request where
  \<comment> \<open>\<open>ex_request\<close> asking for exactly the ceiling.\<close>
  "ceiling_request = ex_request\<lparr>max_tokens := Some 8192\<rparr>"

definition ex_auth_timeout :: js_error where
  \<comment> \<open>An authentication error whose message names a timeout.\<close>
  "ex_auth_timeout = \<lparr>err_status = Some 403, err_code = None, err_message = Some ''auth service timeout''\<rparr>"

definition ex_auth_silent :: js_error where
  \<comment> \<open>An authentication error without a message.\<close>
  "ex_auth_silent = \<lparr>err_status = Some 401, err_code = None, err_message = None\<rparr>"

definition auth_timeout_env :: env where
  "auth_timeout_env = stub_env (\<lambda>i. Inl ex_auth_timeout) no_stream"

definition auth_silent_env :: env where
  "auth_silent_env = stub_env (\<lambda>i. Inl ex_auth_silent) no_stream"

definition sdk_response :: response where
  \<comment> \<open>A response as the SDK adapter returns it to \<open>ex_request\<close>: the adapter puts the
     \<open>requestId\<close> it was called with on its result.\<close>
  "sdk_response = ex_response\<lparr>resp_requestId := Some ''req_1''\<rparr>"

definition echo_env :: env where
  \<comment> \<open>A backend that answers every invocation with \<open>sdk_response\<close>.\<close>
  "echo_env = stub_env (\<lambda>i. Inr sdk_response) no_stream"

definition echo_first_call :: "(bridge_error + response) \<times> bridge \<times> world" where
  "echo_first_call = proxyRequest echo_env ex_bridge ex_world ex_request 0 25"

definition echo_second_call :: "(bridge_error + response) \<times> bridge \<times> world" where
  \<comment> \<open>The same request under another correlation id, five milliseconds later.\<close>
  "echo_second_call =
     proxyRequest echo_env (fst (snd echo_first_call)) (snd (snd echo_first_call))
       (ex_request\<lparr>requestId := Some ''req_2''\<rparr>) 30 31"

section \<open>The retry controller\<close>

declare executeWithRetry.simps [simp del]
declare executeStreamWithRetry.simps [simp del]

lemma callBackend_answer:
  "callBackend ev am creq w =
     (backend_answer ev am (length (sent w)) creq,
      if am = NoAuth then w else w\<lparr>sent := sent w @ [creq]\<rparr>)"
  by (cases am) (simp_all add: callBackend_def backend_answer_def)

lemma no_auth_error_fatal: "isRetryableError no_auth_error = Some False"
  by (simp add: isRetryableError_def no_auth_error_def)

lemma backend_answer_NoAuth: "backend_answer ev NoAuth i creq = Inl no_auth_error"
  by (simp add: backend_answer_def callBackend_def)

lemma retry_success_general:
  assumes "am \<noteq> NoAuth"
    and "\<forall>k<n. backend_answer ev am (length (sent w) + k) creq = Inl (err k)
               \<and> isRetryableError (err k) = Some True"
    and "backend_answer ev am (length (sent w) + n) creq = Inr resp"
    and "int (attempt + n) \<le> retryAttempts opts"
  shows "executeWithRetry ev opts am creq attempt w =
           (Inr resp, w\<lparr>sent := sent w @ replicate (Suc n) creq,
                          sleeps := sleeps w @ map (\<lambda>k. backoff opts (attempt + k)) [0..<n]\<rparr>)"
  using assms
proof (induction n arbitrary: attempt w err)
  case 0
  then show ?case
    by (subst executeWithRetry.simps) (simp add: callBackend_answer)
next
  case (Suc n)
  let ?w1 = "w\<lparr>sent := sent w @ [creq], sleeps := sleeps w @ [backoff opts attempt]\<rparr>"
  from Suc.prems(2) have first: "backend_answer ev am (length (sent w)) creq = Inl (err 0)"
    "isRetryableError (err 0) = Some True"
    by (metis add.right_neutral zero_less_Suc)+
  have rest: "\<forall>k<n. backend_answer ev am (length (sent ?w1) + k) creq = Inl (err (Suc k))
               \<and> isRetryableError (err (Suc k)) = Some True"
    using Suc.prems(2) by (auto simp: )
  have last: "backend_answer ev am (length (sent ?w1) + n) creq = Inr resp"
    using Suc.prems(3) by simp
  have budget: "int (attempt + 1 + n) \<le> retryAttempts opts"
    using Suc.prems(4) by simp
  have step: "executeWithRetry ev opts am creq attempt w =
                executeWithRetry ev opts am creq (attempt + 1) ?w1"
    using first Suc.prems(1,4)
    by (subst executeWithRetry.simps) (simp add: callBackend_answer)
  show ?case
    unfolding step
    using Suc.IH [OF Suc.prems(1) rest last budget]
    by (simp add: map_upt_Suc replicate_app_Cons_same del: upt_Suc)
qed


lemma retry_exhausted_general:
  assumes "am \<noteq> NoAuth"
    and "\<forall>k\<le>j. backend_answer ev am (length (sent w) + k) creq = Inl (err k)
               \<and> isRetryableError (err k) = Some True"
    and "int (attempt + j) = retryAttempts opts \<or> (j = 0 \<and> retryAttempts opts \<le> int attempt)"
  shows "executeWithRetry ev opts am creq attempt w =
           (Inl (err j), w\<lparr>sent := sent w @ replicate (Suc j) creq,
                            sleeps := sleeps w @ map (\<lambda>k. backoff opts (attempt + k)) [0..<j]\<rparr>)"
  using assms
proof (induction j arbitrary: attempt w err)
  case 0
  then show ?case
    by (subst executeWithRetry.simps) (auto simp add: callBackend_answer)
next
  case (Suc j)
  let ?w1 = "w\<lparr>sent := sent w @ [creq], sleeps := sleeps w @ [backoff opts attempt]\<rparr>"
  from Suc.prems(2) have first: "backend_answer ev am (length (sent w)) creq = Inl (err 0)"
    "isRetryableError (err 0) = Some True"
    by (metis add.right_neutral le0)+
  have rest: "\<forall>k\<le>j. backend_answer ev am (length (sent ?w1) + k) creq = Inl (err (Suc k))
               \<and> isRetryableError (err (Suc k)) = Some True"
    using Suc.prems(2) by auto
  have budget: "int (attempt + 1 + j) = retryAttempts opts
                  \<or> (j = 0 \<and> retryAttempts opts \<le> int (attempt + 1))"
    using Suc.prems(3) by auto
  have "int attempt < retryAttempts opts"
    using Suc.prems(3) by auto
  then have step: "executeWithRetry ev opts am creq attempt w =
                executeWithRetry ev opts am creq (attempt + 1) ?w1"
    using first Suc.prems(1)
    by (subst executeWithRetry.simps) (simp add: callBackend_answer)
  show ?case
    unfolding step
    using Suc.IH [OF Suc.prems(1) rest budget]
    by (simp add: map_upt_Suc replicate_app_Cons_same del: upt_Suc)
qed

lemma backoff_sum:
  "(\<Sum>k\<leftarrow>[0..<n]. backoff opts (Suc k)) = (\<Sum>k = Suc 0..n. retryDelay opts * 2 ^ (k - Suc 0))"
proof (induction n)
  case 0
  then show ?case by simp
next
  case (Suc n)
  then show ?case by (simp add: backoff_def)
qed

text \<open>
  Claim C2, as amended. A backend that fails with a transient (retryable) error on its
  first \<open>N\<close> invocations and succeeds on the next one: with an attempt budget above \<open>N\<close>
  the retry controller returns the successful response after exactly \<open>N + 1\<close>
  invocations, and the delays it sleeps add up to the sum of
  \<open>retryDelay * 2 ^ (k - 1)\<close> for \<open>k\<close> from 1 to \<open>N\<close>; with a budget of at least 1 and at most
  \<open>N\<close> it propagates the error of the last attempt, which the caller flags retryable,
  after exactly as many invocations as the budget.
\<close>

theorem C2_retry:
  assumes stub_fails: "\<forall>k<N. backend_answer ev am (length (sent w) + k) creq = Inl (err k)
                             \<and> isRetryableError (err k) = Some True"
    and stub_succeeds: "backend_answer ev am (length (sent w) + N) creq = Inr resp"
  shows "(int N < retryAttempts opts \<longrightarrow>
            (\<exists>w'. executeWithRetry ev opts am creq 1 w = (Inr resp, w')
                 \<and> sent w' = sent w @ replicate (N + 1) creq
                 \<and> (\<exists>slept. sleeps w' = sleeps w @ slept
                        \<and> sum_list slept = (\<Sum>k = 1..N. retryDelay opts * 2 ^ (k - 1)))))
       \<and> (1 \<le> retryAttempts opts \<and> retryAttempts opts \<le> int N \<longrightarrow>
            (\<exists>e w'. executeWithRetry ev opts am creq 1 w = (Inl e, w')
                 \<and> e = err (nat (retryAttempts opts) - 1)
                 \<and> be_retryable (structured_error r rt e) = Some True
                 \<and> sent w' = sent w @ replicate (nat (retryAttempts opts)) creq))"
proof (intro conjI impI)
  have am: "am \<noteq> NoAuth"
    using stub_succeeds by (auto simp: backend_answer_NoAuth)
  {
    assume budget: "int N < retryAttempts opts"
    then have "int (1 + N) \<le> retryAttempts opts" by simp
    from retry_success_general [OF am stub_fails stub_succeeds this]
    show "\<exists>w'. executeWithRetry ev opts am creq 1 w = (Inr resp, w')
                 \<and> sent w' = sent w @ replicate (N + 1) creq
                 \<and> (\<exists>slept. sleeps w' = sleeps w @ slept
                        \<and> sum_list slept = (\<Sum>k = 1..N. retryDelay opts * 2 ^ (k - 1)))"
      by (simp add: backoff_sum)
  }
  {
    assume budget: "1 \<le> retryAttempts opts \<and> retryAttempts opts \<le> int N"
    define j where "j = nat (retryAttempts opts) - 1"
    have j: "int (1 + j) = retryAttempts opts" "j < N" "Suc j = nat (retryAttempts opts)"
      using budget by (auto simp: j_def)
    have fails: "\<forall>k\<le>j. backend_answer ev am (length (sent w) + k) creq = Inl (err k)
               \<and> isRetryableError (err k) = Some True"
      using stub_fails j(2) by auto
    have "isRetryableError (err j) = Some True"
      using fails by auto
    with retry_exhausted_general [OF am fails disjI1 [OF j(1)]]
    show "\<exists>e w'. executeWithRetry ev opts am creq 1 w = (Inl e, w')
                 \<and> e = err (nat (retryAttempts opts) - 1)
                 \<and> be_retryable (structured_error r rt e) = Some True
                 \<and> sent w' = sent w @ replicate (nat (retryAttempts opts)) creq"
      by (simp add: j(3) [symmetric] structured_error_def)
  }
qed


lemma backend_answer_stub [simp]:
  "backend_answer (stub_env answer stream) Api i creq = answer i"
  by (simp add: backend_answer_def callBackend_def stub_env_def)

lemma ex_transient_retryable [simp]: "isRetryableError ex_transient = Some True"
  by (simp add: isRetryableError_def ex_transient_def retryableStatuses_def)

theorem C2_retry_witness:
  "(\<exists>w'. executeWithRetry (stub_env (flaky 2) no_stream) ex_options Api
            (transformToClaudeFormat ex_options ex_request) 1 ex_world = (Inr ex_response, w')
        \<and> length (sent w') = 3
        \<and> (\<exists>slept. sleeps w' = slept \<and> sum_list slept = 3000))
   \<and> (\<exists>e w'. executeWithRetry (stub_env (flaky 3) no_stream) ex_options Api
            (transformToClaudeFormat ex_options ex_request) 1 ex_world = (Inl e, w')
        \<and> e = ex_transient
        \<and> be_retryable (structured_error ex_request 7 e) = Some True
        \<and> length (sent w') = 3)"
proof -
  let ?creq = "transformToClaudeFormat ex_options ex_request"
  have f2: "\<forall>k<2. backend_answer (stub_env (flaky 2) no_stream) Api (length (sent ex_world) + k) ?creq
                  = Inl ((\<lambda>k. ex_transient) k)
                \<and> isRetryableError ((\<lambda>k. ex_transient) k) = Some True"
    by (simp add: flaky_def ex_world_def)
  have s2: "backend_answer (stub_env (flaky 2) no_stream) Api (length (sent ex_world) + 2) ?creq
              = Inr ex_response"
    by (simp add: flaky_def ex_world_def)
  have f3: "\<forall>k<3. backend_answer (stub_env (flaky 3) no_stream) Api (length (sent ex_world) + k) ?creq
                  = Inl ((\<lambda>k. ex_transient) k)
                \<and> isRetryableError ((\<lambda>k. ex_transient) k) = Some True"
    by (simp add: flaky_def ex_world_def)
  have s3: "backend_answer (stub_env (flaky 3) no_stream) Api (length (sent ex_world) + 3) ?creq
              = Inr ex_response"
    by (simp add: flaky_def ex_world_def)
  have sum: "(\<Sum>k = Suc 0..2. retryDelay ex_options * 2 ^ (k - Suc 0)) = 3000"
    by (simp add: ex_options_def numeral_2_eq_2)
  have ra: "retryAttempts ex_options = 3"
    by (simp add: ex_options_def)
  show ?thesis
    using C2_retry [OF f2 s2, of ex_options ex_request 7]
          C2_retry [OF f3 s3, of ex_options ex_request 7]
    by (auto simp add: ra sum ex_world_def)
qed

text \<open>
  The claim as stated fails for a budget below 1: the controller always makes a first
  attempt. With a budget of 0 and a backend that fails once, one invocation is made.
\<close>

theorem C2_zero_budget_counterexample:
  "executeWithRetry (stub_env (flaky 1) no_stream) (ex_options\<lparr>retryAttempts := 0\<rparr>) Api
     (transformToClaudeFormat ex_options ex_request) 1 ex_world
     = (Inl ex_transient,
        \<lparr>sent = [transformToClaudeFormat ex_options ex_request], sleeps = [], events = []\<rparr>)
   \<and> length [transformToClaudeFormat ex_options ex_request]
       \<noteq> nat (retryAttempts (ex_options\<lparr>retryAttempts := 0\<rparr>))"
  by (subst executeWithRetry.simps)
     (simp add: callBackend_answer flaky_def ex_world_def)

section \<open>The non-streaming call\<close>

lemma proxyRequest_hit:
  assumes "cache_lookup ev b r t0 = Some cached"
  shows "proxyRequest ev b w r t0 t1 =
           (Inr (formatResponse cached [MFromCache True] t0),
            b\<lparr>metrics := (metrics b)\<lparr>requests := requests (metrics b) + 1,
                                       lastRequestTime := Some t0,
                                       cacheHits := cacheHits (metrics b) + 1\<rparr>\<rparr>, w)"
  using assms by (simp add: proxyRequest_def)

lemma proxyRequest_failure:
  assumes "cache_lookup ev b r t0 = None"
    and "executeWithRetry ev (options b) (authMethod b) (transformToClaudeFormat (options b) r) 1 w
           = (Inl e, w1)"
  shows "proxyRequest ev b w r t0 t1 =
           (Inl (structured_error r (t1 - t0) e),
            (counted_miss b r t0)\<lparr>metrics := (metrics (counted_miss b r t0))
                 \<lparr>errors := errors (metrics b) + 1\<rparr>\<rparr>, w1)"
  using assms by (simp add: proxyRequest_def counted_miss_def Let_def)

lemma proxyRequest_success:
  assumes "cache_lookup ev b r t0 = None"
    and "executeWithRetry ev (options b) (authMethod b) (transformToClaudeFormat (options b) r) 1 w
           = (Inr raw, w1)"
  shows "proxyRequest ev b w r t0 t1 =
           (Inr (formatResponse raw [MRequestId (requestId r), MResponseTime (t1 - t0)] t1),
            (counted_miss b r t0)
              \<lparr>metrics := updateMetrics (metrics (counted_miss b r t0)) raw (t1 - t0),
                cache := (case cache b of
                            None \<Rightarrow> None
                          | Some c \<Rightarrow> if resp_usage raw \<noteq> None
                                      then Some (cache_set c (generateCacheKey ev (options b) r) raw
                                                   (cacheTtl (options b)) t1)
                                      else Some c)\<rparr>, w1)"
  using assms by (auto simp add: proxyRequest_def counted_miss_def Let_def split: option.splits)

lemma proxyRequest_cases:
  obtains (hit) cached where "cache_lookup ev b r t0 = Some cached"
  | (failure) e w1 where "cache_lookup ev b r t0 = None"
      "executeWithRetry ev (options b) (authMethod b) (transformToClaudeFormat (options b) r) 1 w
           = (Inl e, w1)"
  | (success) raw w1 where "cache_lookup ev b r t0 = None"
      "executeWithRetry ev (options b) (authMethod b) (transformToClaudeFormat (options b) r) 1 w
           = (Inr raw, w1)"
proof (cases "cache_lookup ev b r t0")
  case None
  obtain res w1 where run: "executeWithRetry ev (options b) (authMethod b)
      (transformToClaudeFormat (options b) r) 1 w = (res, w1)"
    by (cases "executeWithRetry ev (options b) (authMethod b)
      (transformToClaudeFormat (options b) r) 1 w")
  show ?thesis
    using None run failure success by (cases res) auto
next
  case (Some cached)
  then show ?thesis by (rule hit)
qed


lemma executeWithRetry_fatal:
  assumes "am \<noteq> NoAuth"
    and "backend_answer ev am (length (sent w)) creq = Inl e"
    and "isRetryableError e \<noteq> Some True"
  shows "executeWithRetry ev opts am creq attempt w = (Inl e, w\<lparr>sent := sent w @ [creq]\<rparr>)"
  using assms by (subst executeWithRetry.simps) (simp add: callBackend_answer)

lemma authentication_error_fatal:
  assumes "err_status e = Some 401 \<or> err_status e = Some 403"
    and "err_code e = None"
    and "err_message e = Some m"
    and "\<not> str_includes m ''rate limit''" and "\<not> str_includes m ''timeout''"
  shows "isRetryableError e = Some False"
  using assms by (auto simp add: isRetryableError_def retryableStatuses_def)

lemma authentication_error_not_retried:
  assumes "err_status e = Some 401 \<or> err_status e = Some 403"
    and "\<forall>c. err_code e = Some c \<longrightarrow> c \<notin> set retryableErrors"
    and "\<forall>m. err_message e = Some m
           \<longrightarrow> \<not> str_includes m ''rate limit'' \<and> \<not> str_includes m ''timeout''"
  shows "isRetryableError e = (case err_message e of None \<Rightarrow> None | Some m \<Rightarrow> Some False)"
  using assms
  by (auto simp add: isRetryableError_def retryableStatuses_def split: option.splits)

lemma ex_lookup_empty [simp]: "cache_lookup ev ex_bridge r t = None"
  by (simp add: cache_lookup_def ex_bridge_def cache_get_def)

text \<open>
  Claim C3, as the spec words it, fails: the classifier reads the transport code and the
  message of every error, an authentication error included. A backend that raises
  status 403 with the message \<open>auth service timeout\<close> on every invocation is invoked three
  times, with back-off sleeps of 1000 and 2000 ms in between, and the structured error
  that is thrown has \<open>retryable\<close> true. A backend that raises status 401 without a message
  is invoked once, and the structured error has \<open>retryable\<close> undefined rather than false.
\<close>

theorem C3_authentication_error_counterexample:
  "proxyRequest auth_timeout_env ex_bridge ex_world ex_request 0 3025
     = (Inl \<lparr>be_status = 403, be_message = ''auth service timeout'',
             be_requestId = Some ''req_1'', be_responseTime = 3025, be_retryable = Some True\<rparr>,
        ex_bridge\<lparr>metrics := (metrics ex_bridge)
          \<lparr>requests := 1, lastRequestTime := Some 0, cacheMisses := 1, errors := 1\<rparr>\<rparr>,
        \<lparr>sent = replicate 3 (transformToClaudeFormat ex_options ex_request),
         sleeps = [1000, 2000], events = []\<rparr>)
   \<and> proxyRequest auth_silent_env ex_bridge ex_world ex_request 0 25
     = (Inl \<lparr>be_status = 401, be_message = ''Request failed'',
             be_requestId = Some ''req_1'', be_responseTime = 25, be_retryable = None\<rparr>,
        ex_bridge\<lparr>metrics := (metrics ex_bridge)
          \<lparr>requests := 1, lastRequestTime := Some 0, cacheMisses := 1, errors := 1\<rparr>\<rparr>,
        \<lparr>sent = [transformToClaudeFormat ex_options ex_request], sleeps = [], events = []\<rparr>)"
proof -
  have retried: "isRetryableError ex_auth_timeout = Some True"
    by (simp add: isRetryableError_def ex_auth_timeout_def retryableStatuses_def)
  have two_steps: "[0..<2] = [0, Suc 0]"
    by (simp add: numeral_2_eq_2)
  have "executeWithRetry auth_timeout_env (options ex_bridge) (authMethod ex_bridge)
          (transformToClaudeFormat (options ex_bridge) ex_request) 1 ex_world
        = (Inl ex_auth_timeout,
           ex_world\<lparr>sent := sent ex_world
                       @ replicate (Suc 2) (transformToClaudeFormat (options ex_bridge) ex_request),
                    sleeps := sleeps ex_world
                       @ map (\<lambda>k. backoff (options ex_bridge) (1 + k)) [0..<2]\<rparr>)"
    by (rule retry_exhausted_general [where err = "\<lambda>k. ex_auth_timeout"])
       (simp_all add: retried auth_timeout_env_def ex_bridge_def ex_options_def)
  from proxyRequest_failure [OF ex_lookup_empty this, of 0 3025]
  have first: "proxyRequest auth_timeout_env ex_bridge ex_world ex_request 0 3025
     = (Inl \<lparr>be_status = 403, be_message = ''auth service timeout'',
             be_requestId = Some ''req_1'', be_responseTime = 3025, be_retryable = Some True\<rparr>,
        ex_bridge\<lparr>metrics := (metrics ex_bridge)
          \<lparr>requests := 1, lastRequestTime := Some 0, cacheMisses := 1, errors := 1\<rparr>\<rparr>,
        \<lparr>sent = replicate 3 (transformToClaudeFormat ex_options ex_request),
         sleeps = [1000, 2000], events = []\<rparr>)"
    by (simp add: structured_error_def retried [unfolded ex_auth_timeout_def] counted_miss_def
        ex_bridge_def ex_world_def ex_request_def ex_auth_timeout_def truthy_def backoff_def
        ex_options_def numeral_3_eq_3 two_steps)
  have silent: "isRetryableError ex_auth_silent = None"
    by (simp add: isRetryableError_def ex_auth_silent_def retryableStatuses_def)
  have "executeWithRetry auth_silent_env (options ex_bridge) (authMethod ex_bridge)
          (transformToClaudeFormat (options ex_bridge) ex_request) 1 ex_world
        = (Inl ex_auth_silent,
           ex_world\<lparr>sent := sent ex_world @ [transformToClaudeFormat (options ex_bridge) ex_request]\<rparr>)"
    by (rule executeWithRetry_fatal) (simp_all add: silent auth_silent_env_def ex_bridge_def)
  from proxyRequest_failure [OF ex_lookup_empty this, of 0 25]
  have second: "proxyRequest auth_silent_env ex_bridge ex_world ex_request 0 25
     = (Inl \<lparr>be_status = 401, be_message = ''Request failed'',
             be_requestId = Some ''req_1'', be_responseTime = 25, be_retryable = None\<rparr>,
        ex_bridge\<lparr>metrics := (metrics ex_bridge)
          \<lparr>requests := 1, lastRequestTime := Some 0, cacheMisses := 1, errors := 1\<rparr>\<rparr>,
        \<lparr>sent = [transformToClaudeFormat ex_options ex_request], sleeps = [], events = []\<rparr>)"
    by (simp add: structured_error_def silent [unfolded ex_auth_silent_def] counted_miss_def
        ex_bridge_def ex_world_def ex_request_def ex_auth_silent_def truthy_def)
  from first second show ?thesis
    by (rule conjI)
qed

text \<open>
  Claim C3, amended. A backend is pinned and the request is not answered from the cache.
  The backend raises an authentication error (status 401 or 403) that the classifier has
  no other reason to retry: its transport code, if any, is none of \<open>ECONNRESET\<close>,
  \<open>ETIMEDOUT\<close>, \<open>ENOTFOUND\<close>, and its message, if any, mentions neither a rate limit nor a
  timeout. Then the non-streaming call invokes the backend exactly once, sleeps no
  back-off, and throws the structured error with the status of the backend's error;
  its \<open>retryable\<close> is false when the error carries a message and undefined when it
  carries none.
\<close>

theorem C3_fatal_error_single_attempt:
  assumes backend: "authMethod b \<noteq> NoAuth"
    and miss: "cache_lookup ev b r t0 = None"
    and raises: "backend_answer ev (authMethod b) (length (sent w))
                   (transformToClaudeFormat (options b) r) = Inl e"
    and auth: "err_status e = Some 401 \<or> err_status e = Some 403"
    and code: "\<forall>c. err_code e = Some c \<longrightarrow> c \<notin> set retryableErrors"
    and msg: "\<forall>m. err_message e = Some m
                \<longrightarrow> \<not> str_includes m ''rate limit'' \<and> \<not> str_includes m ''timeout''"
  shows "fst (proxyRequest ev b w r t0 t1) = Inl (structured_error r (t1 - t0) e)
       \<and> be_retryable (structured_error r (t1 - t0) e)
           = (case err_message e of None \<Rightarrow> None | Some m \<Rightarrow> Some False)
       \<and> be_status (structured_error r (t1 - t0) e) = the (err_status e)
       \<and> snd (snd (proxyRequest ev b w r t0 t1))
           = w\<lparr>sent := sent w @ [transformToClaudeFormat (options b) r]\<rparr>"
proof -
  have verdict: "isRetryableError e = (case err_message e of None \<Rightarrow> None | Some m \<Rightarrow> Some False)"
    using auth code msg by (rule authentication_error_not_retried)
  then have fatal: "isRetryableError e \<noteq> Some True"
    by (simp split: option.splits)
  have "executeWithRetry ev (options b) (authMethod b) (transformToClaudeFormat (options b) r) 1 w
          = (Inl e, w\<lparr>sent := sent w @ [transformToClaudeFormat (options b) r]\<rparr>)"
    using backend raises fatal by (rule executeWithRetry_fatal)
  from proxyRequest_failure [OF miss this] verdict auth show ?thesis
    by (auto simp add: structured_error_def)
qed

lemma ex_auth_error_fatal [simp]: "isRetryableError ex_auth_error = Some False"
  by (rule authentication_error_fatal [where m = "''invalid x-api-key''"])
     (simp_all add: ex_auth_error_def)

theorem C3_fatal_error_single_attempt_witness:
  "fst (proxyRequest failing_env ex_bridge ex_world ex_request 0 25)
     = Inl \<lparr>be_status = 401, be_message = ''invalid x-api-key'', be_requestId = Some ''req_1'',
            be_responseTime = 25, be_retryable = Some False\<rparr>
   \<and> length (sent (snd (snd (proxyRequest failing_env ex_bridge ex_world ex_request 0 25)))) = 1
   \<and> sleeps (snd (snd (proxyRequest failing_env ex_bridge ex_world ex_request 0 25))) = []"
proof -
  have am: "authMethod ex_bridge \<noteq> NoAuth"
    by (simp add: ex_bridge_def)
  have raises: "backend_answer failing_env (authMethod ex_bridge)
                  (length (sent ex_world)) (transformToClaudeFormat (options ex_bridge) ex_request)
                  = Inl ex_auth_error"
    by (simp add: ex_bridge_def failing_env_def)
  have shape: "err_status ex_auth_error = Some 401 \<or> err_status ex_auth_error = Some 403"
    "\<forall>c. err_code ex_auth_error = Some c \<longrightarrow> c \<notin> set retryableErrors"
    "\<forall>m. err_message ex_auth_error = Some m
       \<longrightarrow> \<not> str_includes m ''rate limit'' \<and> \<not> str_includes m ''timeout''"
    by (simp_all add: ex_auth_error_def)
  show ?thesis
    using C3_fatal_error_single_attempt [OF am ex_lookup_empty raises shape, of 0 25]
    by (simp add: structured_error_def ex_auth_error_def ex_request_def ex_world_def truthy_def)
qed

lemma executeWithRetry_sent:
  "executeWithRetry ev opts am creq attempt w = (res, w1) \<Longrightarrow>
     \<exists>n. sent w1 = sent w @ replicate n creq \<and> (am \<noteq> NoAuth \<longrightarrow> 0 < n)"
proof (induction ev opts am creq attempt w arbitrary: res w1 rule: executeWithRetry.induct)
  case (1 ev opts am creq attempt w)
  let ?w0 = "if am = NoAuth then w else w\<lparr>sent := sent w @ [creq]\<rparr>"
  show ?case
  proof (cases "backend_answer ev am (length (sent w)) creq")
    case (Inr response)
    with "1.prems" have "w1 = ?w0"
      by (subst (asm) executeWithRetry.simps) (simp add: callBackend_answer)
    then show ?thesis
      by (cases "am = NoAuth") (auto intro: exI [of _ 0] exI [of _ 1])
  next
    case (Inl e)
    show ?thesis
    proof (cases "int attempt < retryAttempts opts \<and> isRetryableError e = Some True")
      case False
      with Inl "1.prems" have "w1 = ?w0"
        by (subst (asm) executeWithRetry.simps) (auto simp add: callBackend_answer)
      then show ?thesis
        by (cases "am = NoAuth") (auto intro: exI [of _ 0] exI [of _ 1])
    next
      case True
      let ?w' = "?w0\<lparr>sleeps := sleeps ?w0 @ [backoff opts attempt]\<rparr>"
      have cb: "callBackend ev am creq w = (Inl e, ?w0)"
        using Inl by (simp add: callBackend_answer)
      have run: "executeWithRetry ev opts am creq (attempt + 1) ?w' = (res, w1)"
        using "1.prems" True cb by (subst (asm) executeWithRetry.simps) simp
      from "1.IH" [OF cb [symmetric] refl True run]
      obtain n where n: "sent w1 = sent ?w' @ replicate n creq" "am \<noteq> NoAuth \<longrightarrow> 0 < n"
        by blast
      show ?thesis
      proof (cases "am = NoAuth")
        case True
        with n show ?thesis by auto
      next
        case False
        with n have "sent w1 = sent w @ replicate (Suc n) creq"
          by (simp add: replicate_app_Cons_same)
        then show ?thesis by blast
      qed
    qed
  qed
qed

lemma cache_get_stays_expired:
  "cache_get c k t = None \<Longrightarrow> t \<le> t' \<Longrightarrow> cache_get c k t' = None"
  by (auto simp: cache_get_def split: option.splits if_splits)

lemma generateCacheKey_cong:
  "keyData opts r' = keyData opts r \<Longrightarrow> generateCacheKey ev opts r' = generateCacheKey ev opts r"
  by (simp add: generateCacheKey_def)

lemma counted_miss_frame [simp]:
  "cache (counted_miss b r t) = cache b"
  "options (counted_miss b r t) = options b"
  "authMethod (counted_miss b r t) = authMethod b"
  by (simp_all add: counted_miss_def)

text \<open>
  Claim C10. When a non-streaming call fails, the cache is the one the call found: no
  entry was stored for the request's key. A later call for the same key fields then
  misses as well and invokes the backend (where one is pinned).
\<close>

theorem C10_failure_leaves_cache:
  assumes failed: "proxyRequest ev b w r t0 t1 = (Inl err, b1, w1)"
  shows "cache b1 = cache b
       \<and> (\<forall>r' t0' t1'. authMethod b \<noteq> NoAuth \<and> t0 \<le> t0'
              \<and> keyData (options b) r' = keyData (options b) r \<and> http_method r' = http_method r
            \<longrightarrow> length (sent w1) < length (sent (snd (snd (proxyRequest ev b1 w1 r' t0' t1')))))"
proof (cases rule: proxyRequest_cases [where ev = ev and b = b and r = r and ?t0.0 = t0 and w = w])
  case (hit cached)
  from proxyRequest_hit [OF this] failed show ?thesis by simp
next
  case (success raw w1')
  from proxyRequest_success [OF this] failed show ?thesis by simp
next
  case (failure e w1')
  from proxyRequest_failure [OF this, of t1] failed
  have b1: "b1 = (counted_miss b r t0)\<lparr>metrics := (metrics (counted_miss b r t0))
                 \<lparr>errors := errors (metrics b) + 1\<rparr>\<rparr>" and w1: "w1 = w1'"
    by simp_all
  have frame: "cache b1 = cache b" "options b1 = options b" "authMethod b1 = authMethod b"
    by (simp_all add: b1)
  have "length (sent w1) < length (sent (snd (snd (proxyRequest ev b1 w1 r' t0' t1'))))"
    if am: "authMethod b \<noteq> NoAuth" and later: "t0 \<le> t0'"
      and same: "keyData (options b) r' = keyData (options b) r" "http_method r' = http_method r"
    for r' t0' t1'
  proof -
    have key: "generateCacheKey ev (options b) r' = generateCacheKey ev (options b) r"
      using same(1) by (rule generateCacheKey_cong)
    have miss: "cache_lookup ev b1 r' t0' = None"
    proof (cases "cache b")
      case None
      then show ?thesis by (simp add: cache_lookup_def frame)
    next
      case (Some c)
      show ?thesis
      proof (cases "http_method r = Some ''POST''")
        case True
        then show ?thesis by (simp add: cache_lookup_def frame Some same(2))
      next
        case False
        with failure(1) Some have "cache_get c (generateCacheKey ev (options b) r) t0 = None"
          by (simp add: cache_lookup_def)
        from cache_get_stays_expired [OF this later] False Some show ?thesis
          by (simp add: cache_lookup_def frame same(2) key)
      qed
    qed
    obtain res w2 where run: "executeWithRetry ev (options b1) (authMethod b1)
        (transformToClaudeFormat (options b1) r') 1 w1 = (res, w2)"
      by (cases "executeWithRetry ev (options b1) (authMethod b1)
        (transformToClaudeFormat (options b1) r') 1 w1")
    from executeWithRetry_sent [OF run] am frame
    have longer: "length (sent w1) < length (sent w2)"
      by auto
    show ?thesis
    proof (cases res)
      case (Inl e')
      with proxyRequest_failure [OF miss run [unfolded Inl]] longer show ?thesis by simp
    next
      case (Inr raw)
      with proxyRequest_success [OF miss run [unfolded Inr]] longer show ?thesis by simp
    qed
  qed
  with frame show ?thesis by blast
qed


lemma formatResponse_fields [simp]:
  "resp_content (formatResponse raw md t) = resp_content raw"
  "resp_model (formatResponse raw md t) = resp_model raw"
  "resp_usage (formatResponse raw md t) = resp_usage raw"
  "resp_extra (formatResponse raw md t) = resp_extra raw"
  "resp_timestamp (formatResponse raw md t) = Some t"
proof -
  have "resp_content (foldl spread_meta raw md) = resp_content raw
      \<and> resp_model (foldl spread_meta raw md) = resp_model raw
      \<and> resp_usage (foldl spread_meta raw md) = resp_usage raw
      \<and> resp_extra (foldl spread_meta raw md) = resp_extra raw"
  proof (induction md arbitrary: raw)
    case Nil
    show ?case by simp
  next
    case (Cons m md)
    show ?case using Cons.IH [of "spread_meta raw m"] by (cases m) simp_all
  qed
  then show "resp_content (formatResponse raw md t) = resp_content raw"
    "resp_model (formatResponse raw md t) = resp_model raw"
    "resp_usage (formatResponse raw md t) = resp_usage raw"
    "resp_extra (formatResponse raw md t) = resp_extra raw"
    "resp_timestamp (formatResponse raw md t) = Some t"
    by (simp_all add: formatResponse_def)
qed

lemma cache_get_fresh:
  "ttl = 0 \<or> t' \<le> t + ttl * 1000 \<Longrightarrow> cache_get (cache_set c k v ttl t) k t' = Some v"
  by (auto simp: cache_get_def cache_set_def)

text \<open>
  Claim C1, as amended. The cache is enabled, neither request has \<open>method\<close> POST, both
  have the same key fields, the first call finds no entry, succeeds with a response
  that has a \<open>usage\<close> field, and the second call arrives within the time-to-live. Then
  the second call is answered from the cache without a backend invocation (the world
  is unchanged) and the hit counter grows by exactly one. What is cached is the
  response \<open>raw\<close> that the retry controller returned to the first call, not the answer
  the first caller received. The first answer is \<open>raw\<close> with \<open>requestId\<close> set to the
  first request's, \<open>responseTime\<close> to the time the first call took, and the timestamp of
  the first call. The second answer is \<open>raw\<close> with \<open>fromCache\<close> true and the timestamp
  of the second call: its \<open>requestId\<close> and \<open>responseTime\<close> are the ones the backend put
  on its response, if any, and neither those of the first answer nor those of the second
  request. Content, model, usage and the other backend fields of the two answers are
  equal.
\<close>

theorem C1_second_call_from_cache:
  assumes enabled: "cache b = Some c"
    and cacheable: "http_method r \<noteq> Some ''POST''" "http_method r2 \<noteq> Some ''POST''"
    and same: "keyData (options b) r2 = keyData (options b) r"
    and miss: "cache_get c (generateCacheKey ev (options b) r) t0 = None"
    and first: "proxyRequest ev b w r t0 t1 = (Inr out1, b1, w1)"
    and usage: "resp_usage out1 \<noteq> None"
    and within_ttl: "cacheTtl (options b) = 0 \<or> t2 \<le> t1 + cacheTtl (options b) * 1000"
  shows "\<exists>raw out2.
           executeWithRetry ev (options b) (authMethod b) (transformToClaudeFormat (options b) r) 1 w
             = (Inr raw, w1)
         \<and> out1 = raw\<lparr>resp_requestId := requestId r, resp_responseTime := Some (t1 - t0),
                       resp_timestamp := Some t1\<rparr>
         \<and> out2 = raw\<lparr>resp_fromCache := Some True, resp_timestamp := Some t2\<rparr>
         \<and> out1 = formatResponse raw [MRequestId (requestId r), MResponseTime (t1 - t0)] t1
         \<and> out2 = formatResponse raw [MFromCache True] t2
         \<and> proxyRequest ev b1 w1 r2 t2 t3 =
             (Inr out2,
              b1\<lparr>metrics := (metrics b1)\<lparr>requests := requests (metrics b1) + 1,
                                           lastRequestTime := Some t2,
                                           cacheHits := cacheHits (metrics b1) + 1\<rparr>\<rparr>, w1)
         \<and> resp_content out2 = resp_content out1 \<and> resp_model out2 = resp_model out1
         \<and> resp_usage out2 = resp_usage out1 \<and> resp_extra out2 = resp_extra out1
         \<and> resp_fromCache out2 = Some True
         \<and> resp_requestId out2 = resp_requestId raw
         \<and> resp_responseTime out2 = resp_responseTime raw"
proof -
  have lookup: "cache_lookup ev b r t0 = None"
    using enabled miss by (simp add: cache_lookup_def)
  show ?thesis
  proof (cases rule: proxyRequest_cases [where ev = ev and b = b and r = r and ?t0.0 = t0 and w = w])
    case (hit cached)
    with lookup show ?thesis by simp
  next
    case (failure e w1')
    from proxyRequest_failure [OF this] first show ?thesis by simp
  next
    case (success raw w1')
    from proxyRequest_success [OF this, of t1] first
    have out1: "out1 = formatResponse raw [MRequestId (requestId r), MResponseTime (t1 - t0)] t1"
      and w1: "w1 = w1'"
      and b1: "b1 = (counted_miss b r t0)
              \<lparr>metrics := updateMetrics (metrics (counted_miss b r t0)) raw (t1 - t0),
                cache := (case cache b of
                            None \<Rightarrow> None
                          | Some c \<Rightarrow> if resp_usage raw \<noteq> None
                                      then Some (cache_set c (generateCacheKey ev (options b) r) raw
                                                   (cacheTtl (options b)) t1)
                                      else Some c)\<rparr>"
      by simp_all
    have raw_usage: "resp_usage raw \<noteq> None"
      using usage by (simp add: out1)
    have cache1: "cache b1 = Some (cache_set c (generateCacheKey ev (options b) r) raw
                                      (cacheTtl (options b)) t1)"
      and opts1: "options b1 = options b"
      using enabled raw_usage by (simp_all add: b1)
    have key: "generateCacheKey ev (options b) r2 = generateCacheKey ev (options b) r"
      using same by (rule generateCacheKey_cong)
    have "cache_lookup ev b1 r2 t2 = Some raw"
      using cacheable(2) cache_get_fresh [OF within_ttl]
      by (simp add: cache_lookup_def cache1 opts1 key)
    from proxyRequest_hit [OF this, of w1 t3] out1 success(2) w1 show ?thesis
      by (intro exI [of _ raw] exI [of _ "formatResponse raw [MFromCache True] t2"])
         (simp add: formatResponse_def)
  qed
qed


lemma ex_execute_ok:
  "executeWithRetry ex_env (options ex_bridge) (authMethod ex_bridge) creq 1 ex_world
     = (Inr ex_response, \<lparr>sent = [creq], sleeps = [], events = []\<rparr>)"
  by (subst executeWithRetry.simps)
     (simp add: callBackend_answer ex_env_def flaky_def ex_world_def ex_bridge_def)

lemma first_call_result:
  "fst first_call = Inr (ex_response\<lparr>resp_requestId := Some ''req_1'',
                                      resp_responseTime := Some 25, resp_timestamp := Some 25\<rparr>)"
  "cache (fst (snd first_call))
     = Some (cache_set Map.empty (generateCacheKey ex_env ex_options ex_request) ex_response 300 25)"
  "options (fst (snd first_call)) = ex_options"
  "snd (snd first_call) = \<lparr>sent = [transformToClaudeFormat ex_options ex_request], sleeps = [], events = []\<rparr>"
  "cacheHits (metrics (fst (snd first_call))) = 0"
proof -
  note eq = proxyRequest_success [OF ex_lookup_empty ex_execute_ok,
          where r = ex_request and ?t0.0 = 0 and ?t1.0 = 25, folded first_call_def]
  have [simp]: "requestId ex_request = Some ''req_1''" "resp_usage ex_response \<noteq> None"
    "options ex_bridge = ex_options" "cache ex_bridge = Some Map.empty"
    "cacheTtl ex_options = 300" "cacheHits (metrics ex_bridge) = 0"
    by (simp_all add: ex_request_def ex_response_def ex_bridge_def ex_options_def)
  show "fst first_call = Inr (ex_response\<lparr>resp_requestId := Some ''req_1'',
                                      resp_responseTime := Some 25, resp_timestamp := Some 25\<rparr>)"
    by (simp add: eq formatResponse_def)
  show "cache (fst (snd first_call))
     = Some (cache_set Map.empty (generateCacheKey ex_env ex_options ex_request) ex_response 300 25)"
    by (simp add: eq)
  show "options (fst (snd first_call)) = ex_options"
    by (simp add: eq)
  show "snd (snd first_call) = \<lparr>sent = [transformToClaudeFormat ex_options ex_request], sleeps = [], events = []\<rparr>"
    by (simp add: eq)
  show "cacheHits (metrics (fst (snd first_call))) = 0"
    by (simp add: eq updateMetrics_def counted_miss_def Let_def split: option.splits)
qed

text \<open>
  The claim as stated fails: the two answers are not identical. The first carries
  \<open>requestId\<close> and \<open>responseTime\<close>, the second \<open>fromCache\<close>, even when both are stamped
  at the same instant.
\<close>

theorem C1_byte_identical_counterexample:
  "fst first_call = Inr (ex_response\<lparr>resp_requestId := Some ''req_1'',
                                      resp_responseTime := Some 25, resp_timestamp := Some 25\<rparr>)
   \<and> fst second_call = Inr (ex_response\<lparr>resp_fromCache := Some True, resp_timestamp := Some 25\<rparr>)
   \<and> fst second_call \<noteq> fst first_call"
proof -
  have "cache_lookup ex_env (fst (snd first_call)) ex_request 25 = Some ex_response"
    by (simp add: cache_lookup_def first_call_result cache_get_fresh) (simp add: ex_request_def)
  from proxyRequest_hit [OF this, of "snd (snd first_call)" 26]
  have "fst second_call = Inr (ex_response\<lparr>resp_fromCache := Some True, resp_timestamp := Some 25\<rparr>)"
    by (simp add: second_call_def formatResponse_def)
  then show ?thesis
    by (simp add: first_call_result ex_response_def)
qed


lemma echo_execute_ok:
  "executeWithRetry echo_env (options ex_bridge) (authMethod ex_bridge) creq 1 ex_world
     = (Inr sdk_response, \<lparr>sent = [creq], sleeps = [], events = []\<rparr>)"
  by (subst executeWithRetry.simps)
     (simp add: callBackend_answer echo_env_def ex_world_def ex_bridge_def)

theorem C1_second_call_from_cache_witness:
  "fst echo_first_call
     = Inr (ex_response\<lparr>resp_requestId := Some ''req_1'', resp_responseTime := Some 25,
                        resp_timestamp := Some 25\<rparr>)
   \<and> fst echo_second_call
     = Inr (ex_response\<lparr>resp_requestId := Some ''req_1'', resp_fromCache := Some True,
                        resp_timestamp := Some 30\<rparr>)
   \<and> snd (snd echo_second_call) = snd (snd echo_first_call)
   \<and> cacheHits (metrics (fst (snd echo_second_call)))
       = cacheHits (metrics (fst (snd echo_first_call))) + 1
   \<and> cache (fst (snd echo_second_call)) = cache (fst (snd echo_first_call))"
proof -
  let ?out1 = "sdk_response\<lparr>resp_requestId := Some ''req_1'',
                             resp_responseTime := Some 25, resp_timestamp := Some 25\<rparr>"
  let ?r2 = "ex_request\<lparr>requestId := Some ''req_2''\<rparr>"
  note eq = proxyRequest_success [OF ex_lookup_empty echo_execute_ok,
          where r = ex_request and ?t0.0 = 0 and ?t1.0 = 25, folded echo_first_call_def]
  have enabled: "cache ex_bridge = Some Map.empty"
    by (simp add: ex_bridge_def)
  have cacheable: "http_method ex_request \<noteq> Some ''POST''" "http_method ?r2 \<noteq> Some ''POST''"
    by (simp_all add: ex_request_def)
  have same: "keyData (options ex_bridge) ?r2 = keyData (options ex_bridge) ex_request"
    by (simp add: keyData_def)
  have miss: "cache_get Map.empty (generateCacheKey echo_env (options ex_bridge) ex_request) 0 = None"
    by (simp add: cache_get_def)
  have out1: "fst echo_first_call = Inr ?out1"
    by (simp add: eq formatResponse_def) (simp add: ex_request_def)
  then have first: "proxyRequest echo_env ex_bridge ex_world ex_request 0 25
                 = (Inr ?out1, fst (snd echo_first_call), snd (snd echo_first_call))"
    by (simp add: echo_first_call_def prod_eq_iff)
  have usage: "resp_usage ?out1 \<noteq> None"
    by (simp add: sdk_response_def ex_response_def)
  have within_ttl: "cacheTtl (options ex_bridge) = 0 \<or> 30 \<le> 25 + cacheTtl (options ex_bridge) * 1000"
    by (simp add: ex_bridge_def ex_options_def)
  from C1_second_call_from_cache [OF enabled cacheable same miss first usage within_ttl, of 31]
    out1 echo_execute_ok [of "transformToClaudeFormat (options ex_bridge) ex_request"]
  show ?thesis
    by (auto simp add: echo_second_call_def sdk_response_def)
qed

theorem C10_failure_leaves_cache_witness:
  "cache (fst (snd failed_call)) = cache ex_bridge
   \<and> length (sent (snd (snd failed_call))) < length (sent (snd (snd repeated_call)))"
proof -
  have "executeWithRetry failing_env (options ex_bridge) (authMethod ex_bridge)
          (transformToClaudeFormat (options ex_bridge) ex_request) 1 ex_world
        = (Inl ex_auth_error,
           ex_world\<lparr>sent := sent ex_world @ [transformToClaudeFormat (options ex_bridge) ex_request]\<rparr>)"
    by (rule executeWithRetry_fatal) (simp_all add: ex_bridge_def failing_env_def)
  from proxyRequest_failure [OF ex_lookup_empty this, of 0 25]
  have "\<exists>err. fst failed_call = Inl err"
    by (simp add: failed_call_def)
  then obtain err where "proxyRequest failing_env ex_bridge ex_world ex_request 0 25
                           = (Inl err, fst (snd failed_call), snd (snd failed_call))"
    by (auto simp add: failed_call_def prod_eq_iff)
  from C10_failure_leaves_cache [OF this]
  show ?thesis
    by (simp add: repeated_call_def) (simp add: ex_bridge_def)
qed

section \<open>The streaming call\<close>

lemma callBackendStream_events:
  "callBackendStream ev am creq w =
     (fst (callBackendStream ev am creq w),
      if am = NoAuth then w
      else w\<lparr>sent := sent w @ [creq],
             events := events w @ attempt_events ev am (length (sent w)) creq\<rparr>)"
  by (cases am) (simp_all add: callBackendStream_def attempt_events_def split: prod.splits)

lemma executeStreamWithRetry_trace:
  "executeStreamWithRetry ev opts am creq attempt w = (res, w1) \<Longrightarrow>
     \<exists>n. sent w1 = sent w @ replicate n creq
        \<and> events w1 = events w
             @ concat (map (\<lambda>i. attempt_events ev am i creq) [length (sent w)..<length (sent w) + n])"
proof (induction ev opts am creq attempt w arbitrary: res w1 rule: executeStreamWithRetry.induct)
  case (1 ev opts am creq attempt w)
  let ?w0 = "if am = NoAuth then w
             else w\<lparr>sent := sent w @ [creq],
                    events := events w @ attempt_events ev am (length (sent w)) creq\<rparr>"
  have base: "\<exists>n. sent ?w0 = sent w @ replicate n creq
        \<and> events ?w0 = events w
             @ concat (map (\<lambda>i. attempt_events ev am i creq) [length (sent w)..<length (sent w) + n])"
    by (cases "am = NoAuth") (auto intro: exI [of _ 0] exI [of _ 1])
  obtain ending where cb: "callBackendStream ev am creq w = (ending, ?w0)"
    using callBackendStream_events [of ev am creq w] by simp
  show ?case
  proof (cases ending)
    case None
    with "1.prems" cb have "w1 = ?w0"
      by (subst (asm) executeStreamWithRetry.simps) simp
    with base show ?thesis by simp
  next
    case (Some e)
    show ?thesis
    proof (cases "int attempt < retryAttempts opts \<and> isRetryableError e = Some True")
      case False
      with Some "1.prems" cb have "w1 = ?w0"
        by (subst (asm) executeStreamWithRetry.simps) auto
      with base show ?thesis by simp
    next
      case True
      let ?w' = "?w0\<lparr>sleeps := sleeps ?w0 @ [backoff opts attempt]\<rparr>"
      have run: "executeStreamWithRetry ev opts am creq (attempt + 1) ?w' = (res, w1)"
        using "1.prems" True cb Some by (subst (asm) executeStreamWithRetry.simps) simp
      from "1.IH" [OF cb [unfolded Some, symmetric] refl True run]
      obtain n where n: "sent w1 = sent ?w' @ replicate n creq"
        "events w1 = events ?w'
             @ concat (map (\<lambda>i. attempt_events ev am i creq) [length (sent ?w')..<length (sent ?w') + n])"
        by blast
      show ?thesis
      proof (cases "am = NoAuth")
        case True
        with n show ?thesis by auto
      next
        case False
        with n have "sent w1 = sent w @ replicate (Suc n) creq"
          "events w1 = events w
             @ concat (map (\<lambda>i. attempt_events ev am i creq)
                         [length (sent w)..<length (sent w) + Suc n])"
          by (simp_all add: replicate_app_Cons_same upt_conv_Cons del: upt_Suc)
        then show ?thesis by blast
      qed
    qed
  qed
qed











section \<open>Normalisation and the cache key\<close>

lemma proxyRequest_sent:
  "\<exists>n. sent (snd (snd (proxyRequest ev b w r t0 t1)))
         = sent w @ replicate n (transformToClaudeFormat (options b) r)"
proof (cases rule: proxyRequest_cases [where ev = ev and b = b and r = r and ?t0.0 = t0 and w = w])
  case (hit cached)
  from proxyRequest_hit [OF this] show ?thesis
    by (simp add: exI [of _ 0])
next
  case (failure e w1)
  from executeWithRetry_sent [OF failure(2)] proxyRequest_failure [OF failure]
  show ?thesis by auto
next
  case (success raw w1)
  from executeWithRetry_sent [OF success(2)] proxyRequest_success [OF success]
  show ?thesis by auto
qed

lemma proxyRequestStream_sent:
  "\<exists>n. sent (snd (snd (proxyRequestStream ev b w r t0 t1)))
         = sent w @ replicate n (transformToClaudeFormat (options b) r)"
proof -
  obtain ending w1 where run:
    "executeStreamWithRetry ev (options b) (authMethod b) (transformToClaudeFormat (options b) r) 1 w
       = (ending, w1)"
    by (cases "executeStreamWithRetry ev (options b) (authMethod b)
                 (transformToClaudeFormat (options b) r) 1 w")
  from executeStreamWithRetry_trace [OF run] run show ?thesis
    by (cases ending) (auto simp add: proxyRequestStream_def Let_def)
qed

text \<open>
  Claim C5. The request handed to the backend is the one \<open>transformToClaudeFormat\<close>
  builds: every entry a streaming or non-streaming call adds to the log of backend
  invocations is that request. Its \<open>max_tokens\<close> is 8192 whenever the requested value
  (the default \<open>maxTokens\<close> where none is given) exceeds 8192 and the requested value
  otherwise, and its temperature is 0 for a requested value below 0, 1 for one above 1
  and the requested value in between.
\<close>

theorem C5_backend_receives_clamped:
  "(let creq = transformToClaudeFormat (options b) r;
        tokens = (case max_tokens r of None \<Rightarrow> maxTokens (options b) | Some n \<Rightarrow> n);
        temp = (case temperature r of None \<Rightarrow> 3 / 10 | Some t \<Rightarrow> t)
    in (8192 < tokens \<longrightarrow> c_max_tokens creq = 8192)
     \<and> (tokens \<le> 8192 \<longrightarrow> c_max_tokens creq = tokens)
     \<and> (temp < 0 \<longrightarrow> c_temperature creq = 0)
     \<and> (1 < temp \<longrightarrow> c_temperature creq = 1)
     \<and> (0 \<le> temp \<and> temp \<le> 1 \<longrightarrow> c_temperature creq = temp)
     \<and> (\<exists>n. sent (snd (snd (proxyRequest ev b w r t0 t1))) = sent w @ replicate n creq)
     \<and> (\<exists>n. sent (snd (snd (proxyRequestStream ev b w r t0 t1))) = sent w @ replicate n creq))"
  unfolding Let_def
  using proxyRequest_sent [of ev b w r t0 t1] proxyRequestStream_sent [of ev b w r t0 t1]
  by (simp add: transformToClaudeFormat_def)

theorem C5_backend_receives_clamped_witness:
  "c_max_tokens (transformToClaudeFormat ex_options
                   (ex_request\<lparr>max_tokens := Some 999999, temperature := Some 5\<rparr>)) = 8192
   \<and> c_temperature (transformToClaudeFormat ex_options
                       (ex_request\<lparr>max_tokens := Some 999999, temperature := Some 5\<rparr>)) = 1
   \<and> (\<exists>n. map c_max_tokens
              (sent (snd (snd (proxyRequest ex_env ex_bridge ex_world
                                 (ex_request\<lparr>max_tokens := Some 999999, temperature := Some 5\<rparr>) 0 25))))
            = replicate n 8192)"
proof -
  let ?r = "ex_request\<lparr>max_tokens := Some 999999, temperature := Some 5\<rparr>"
  have opts: "options ex_bridge = ex_options" "sent ex_world = []"
    by (simp_all add: ex_bridge_def ex_world_def)
  from C5_backend_receives_clamped [of ex_bridge ?r ex_env ex_world 0 25]
  have "c_max_tokens (transformToClaudeFormat ex_options ?r) = 8192"
    "c_temperature (transformToClaudeFormat ex_options ?r) = 1"
    "\<exists>n. sent (snd (snd (proxyRequest ex_env ex_bridge ex_world ?r 0 25)))
            = replicate n (transformToClaudeFormat ex_options ?r)"
    unfolding Let_def opts by simp_all
  then show ?thesis
    by auto
qed

text \<open>
  Claim C6, as amended. For a payload without a \<open>messages\<close> field of its own, the
  message list is: the system message when \<open>system_prompt\<close> is given and not empty, then
  the context message when \<open>context\<close> is, then the instruction, \<open>direct_prompt\<close> before
  \<open>prompt\<close>. When neither is given the transformation still yields a request, with no
  instruction message.
\<close>

theorem C6_message_order:
  assumes "gh_messages g = None"
  shows "messages (transformGitHubActionsRequest opts g) =
           Some ((if truthy (gh_system_prompt g)
                  then [\<lparr>role = ''system'', content = the (gh_system_prompt g)\<rparr>] else [])
               @ (if truthy (gh_context g)
                  then [\<lparr>role = ''user'', content = ''Context: '' @ the (gh_context g)\<rparr>] else [])
               @ (if truthy (gh_direct_prompt g)
                  then [\<lparr>role = ''user'', content = the (gh_direct_prompt g)\<rparr>]
                  else if truthy (gh_prompt g)
                  then [\<lparr>role = ''user'', content = the (gh_prompt g)\<rparr>] else []))"
  using assms by (simp add: transformGitHubActionsRequest_def Let_def)

theorem C6_message_order_witness:
  "messages (transformGitHubActionsRequest ex_options
      (empty_payload\<lparr>gh_prompt := Some ''fallback'', gh_direct_prompt := Some ''Review this code'',
                      gh_system_prompt := Some ''You are a reviewer'',
                      gh_context := Some ''owner/repo''\<rparr>))
   = Some [\<lparr>role = ''system'', content = ''You are a reviewer''\<rparr>,
           \<lparr>role = ''user'', content = ''Context: owner/repo''\<rparr>,
           \<lparr>role = ''user'', content = ''Review this code''\<rparr>]"
  using C6_message_order [of "empty_payload\<lparr>gh_prompt := Some ''fallback'',
                      gh_direct_prompt := Some ''Review this code'',
                      gh_system_prompt := Some ''You are a reviewer'',
                      gh_context := Some ''owner/repo''\<rparr>" ex_options]
  by (simp add: empty_payload_def truthy_def)

text \<open>
  The claim as stated fails: with neither \<open>direct_prompt\<close> nor \<open>prompt\<close> the transformation
  returns a request with an empty message list, and a payload's own \<open>messages\<close> field
  replaces the synthesized list.
\<close>

theorem C6_no_prompt_counterexample:
  "transformGitHubActionsRequest ex_options empty_payload =
     \<lparr>model = Some ''claude-sonnet-4-20250514'', max_tokens = Some 4096, temperature = Some (3 / 10),
      messages = Some [], system = None, stop_sequences = None, requestId = None,
      http_method = None, headers = [], otherParams = [(''action'', ''chat'')]\<rparr>
   \<and> messages (transformGitHubActionsRequest ex_options
        (empty_payload\<lparr>gh_system_prompt := Some ''You are a reviewer'',
                        gh_direct_prompt := Some ''Review this code'',
                        gh_messages := Some [\<lparr>role = ''user'', content = ''hi''\<rparr>]\<rparr>))
       = Some [\<lparr>role = ''user'', content = ''hi''\<rparr>]"
  by (simp add: transformGitHubActionsRequest_def empty_payload_def ex_options_def truthy_def)

lemmas sha256_defs =
  sha256_hex_digest_def sha_pad_def zeros.simps sha_blocks.simps hex32_def hex_digit_def
  compress_def sha_init_def sha_k_def ssig0_def ssig1_def bsig0_def bsig1_def ch_def maj_def
  rotr_def shr_def add32_def

lemmas json_defs =
  json_stringify_keyData_def json_member_def json_message_def json_quote_def json_escape_def
  dquote_def backslash_def number_to_string_def decimal.simps fraction_digits.simps hex_digit_def

lemma sha256_abc:
  "sha256_hex_digest ''abc'' = ''ba7816bf8f01cfea414140de5dae2223b00361a396177a9cb410ff61f20015ad''"
  by (simp add: sha256_defs)

lemma number_to_string_examples:
  "number_to_string 8192 = ''8192''" "number_to_string (3 / 10) = ''0.3''"
  "number_to_string (- 12.5) = ''-12.5''" "number_to_string 0 = ''0''"
  by (simp_all add: json_defs)

lemma oversized_json:
  \<open>json_stringify_keyData (keyData ex_options oversized_request)
     = ''{"model":"m1","messages":[{"role":"user","content":"hi"}],"max_tokens":999999}''\<close>
  by (simp add: keyData_def oversized_request_def ex_request_def truthy_def json_defs)

lemma ceiling_json:
  \<open>json_stringify_keyData (keyData ex_options ceiling_request)
     = ''{"model":"m1","messages":[{"role":"user","content":"hi"}],"max_tokens":8192}''\<close>
  by (simp add: keyData_def ceiling_request_def ex_request_def truthy_def json_defs)

lemma oversized_digest:
  \<open>sha256_hex_digest
      ''{"model":"m1","messages":[{"role":"user","content":"hi"}],"max_tokens":999999}''
     = ''f444892d4db24d7e5f902a223ff0d2929535305dc73aa560ddfe3554afbf3cdd''\<close>
  by (simp add: sha256_defs)

lemma ceiling_digest:
  \<open>sha256_hex_digest
      ''{"model":"m1","messages":[{"role":"user","content":"hi"}],"max_tokens":8192}''
     = ''4399f1385b69e39d38aaa39444f6e61e4b1e618aa4ffc014da44e91c25dbfa10''\<close>
  by (simp add: sha256_defs)

lemma ex_env_platform:
  "json_stringify ex_env = json_stringify_keyData" "sha256_hex ex_env = sha256_hex_digest"
  by (simp_all add: ex_env_def stub_env_def)

text \<open>
  Claim C8, as the spec words it, fails: the key is computed from the request as it is
  received, before \<open>transformToClaudeFormat\<close> fills in the defaults and clamps. A request
  for 999999 tokens and a request for 8192 tokens are one and the same request after
  normalisation, and they get different keys.
\<close>

theorem C8_canonical_request_counterexample:
  "transformToClaudeFormat ex_options oversized_request
     = transformToClaudeFormat ex_options ceiling_request
   \<and> generateCacheKey ex_env ex_options oversized_request = ''claude_f444892d4db24d7e''
   \<and> generateCacheKey ex_env ex_options ceiling_request = ''claude_4399f1385b69e39d''
   \<and> generateCacheKey ex_env ex_options oversized_request
       \<noteq> generateCacheKey ex_env ex_options ceiling_request"
proof -
  have "transformToClaudeFormat ex_options oversized_request
          = transformToClaudeFormat ex_options ceiling_request"
    by (simp add: transformToClaudeFormat_def oversized_request_def ceiling_request_def)
  moreover have "generateCacheKey ex_env ex_options oversized_request = ''claude_f444892d4db24d7e''"
    by (simp add: generateCacheKey_def ex_env_platform oversized_json oversized_digest)
  moreover have "generateCacheKey ex_env ex_options ceiling_request = ''claude_4399f1385b69e39d''"
    by (simp add: generateCacheKey_def ex_env_platform ceiling_json ceiling_digest)
  ultimately show ?thesis
    by simp
qed

text \<open>
  Claim C8, amended. The cache key is a function of five values read from the request
  as it is received, before normalisation: the model (the configured default for a
  missing or empty one), the messages, \<open>max_tokens\<close>, the temperature and the system
  text. It is \<open>claude_\<close> followed by the first sixteen hexadecimal digits of the digest
  of the serialisation of these five, in this order. So two requests that agree on the
  five have the same key, two keys are equal exactly when the sixteen digits are, and
  changing the correlation id, the headers, the method, the stop sequences or any other
  field leaves the key as it is.
\<close>

theorem C8_cache_key_fields:
  "generateCacheKey ev opts r
     = ''claude_'' @ take 16 (sha256_hex ev (json_stringify ev
         \<lparr>k_model = (if truthy (model r) then the (model r) else defaultModel opts),
          k_messages = messages r, k_max_tokens = max_tokens r,
          k_temperature = temperature r, k_system = system r\<rparr>))
   \<and> ((if truthy (model r1) then the (model r1) else defaultModel opts)
      = (if truthy (model r2) then the (model r2) else defaultModel opts)
    \<and> messages r1 = messages r2 \<and> max_tokens r1 = max_tokens r2
    \<and> temperature r1 = temperature r2 \<and> system r1 = system r2
    \<longrightarrow> generateCacheKey ev opts r1 = generateCacheKey ev opts r2)
   \<and> (generateCacheKey ev opts r1 = generateCacheKey ev opts r2
        \<longleftrightarrow> take 16 (sha256_hex ev (json_stringify ev (keyData opts r1)))
            = take 16 (sha256_hex ev (json_stringify ev (keyData opts r2))))
   \<and> generateCacheKey ev opts
        (r\<lparr>requestId := i, headers := h, otherParams := p, http_method := m, stop_sequences := s\<rparr>)
       = generateCacheKey ev opts r"
  by (simp add: generateCacheKey_def keyData_def)

theorem C8_cache_key_fields_witness:
  "generateCacheKey ex_env ex_options (ex_request\<lparr>model := None\<rparr>)
     = generateCacheKey ex_env ex_options
         (ex_request\<lparr>model := Some ''claude-sonnet-4-20250514'', requestId := Some ''req_9'',
                       headers := [(''x-request-id'', ''req_9'')]\<rparr>)"
  using C8_cache_key_fields [of ex_env ex_options ex_request "ex_request\<lparr>model := None\<rparr>"
          "ex_request\<lparr>model := Some ''claude-sonnet-4-20250514'', requestId := Some ''req_9'',
                       headers := [(''x-request-id'', ''req_9'')]\<rparr>"]
  by (simp add: truthy_def ex_options_def)

section \<open>Backend selection at startup\<close>

text \<open>
  Claim C4 at the input where the code departs from it: no API key, no SDK, the CLI
  module imports, and \<open>which claude\<close> fails. The code pins the CLI backend although
  \<open>ClaudeCodeCLI.isAvailable\<close> is false.
\<close>

theorem C4_cli_pinned_without_command:
  "initializeAuthMethods (ex_options\<lparr>anthropicApiKey := None\<rparr>)
      \<lparr>sdk_module_loads = False, sdk_isAvailable = False, cli_module_loads = True,
       which_claude_exit = 1\<rparr> = Cli
   \<and> \<not> cli_isAvailable \<lparr>sdk_module_loads = False, sdk_isAvailable = False,
                          cli_module_loads = True, which_claude_exit = 1\<rparr>"
  by (simp add: initializeAuthMethods_def cli_isAvailable_def truthy_def)

section \<open>The running average\<close>

lemma ex_env_always_ok:
  "executeWithRetry ex_env opts Api creq 1 w = (Inr ex_response, w\<lparr>sent := sent w @ [creq]\<rparr>)"
  by (subst executeWithRetry.simps)
     (simp add: callBackend_answer ex_env_def flaky_def)

lemma first_call_state:
  "fst (snd first_call) =
     ex_bridge\<lparr>metrics := \<lparr>requests = 1, cacheHits = 0, cacheMisses = 1, errors = 0,
                           totalTokens = 8, averageResponseTime = 25, lastRequestTime = Some 0\<rparr>,
               cache := Some (cache_set Map.empty (generateCacheKey ex_env ex_options ex_request)
                               ex_response 300 25)\<rparr>"
proof -
  note eq = proxyRequest_success [OF ex_lookup_empty ex_execute_ok,
          where r = ex_request and ?t0.0 = 0 and ?t1.0 = 25, folded first_call_def]
  show ?thesis
    by (simp add: eq counted_miss_def updateMetrics_def token_count_def Let_def ex_bridge_def
          ex_request_def ex_response_def ex_options_def)
qed

lemma second_call_state:
  "fst (snd second_call) =
     ex_bridge\<lparr>metrics := \<lparr>requests = 2, cacheHits = 1, cacheMisses = 1, errors = 0,
                           totalTokens = 8, averageResponseTime = 25, lastRequestTime = Some 25\<rparr>,
               cache := Some (cache_set Map.empty (generateCacheKey ex_env ex_options ex_request)
                               ex_response 300 25)\<rparr>"
  "snd (snd second_call) = \<lparr>sent = [transformToClaudeFormat ex_options ex_request], sleeps = [], events = []\<rparr>"
proof -
  have "cache_lookup ex_env (fst (snd first_call)) ex_request 25 = Some ex_response"
    by (simp add: cache_lookup_def first_call_result cache_get_fresh) (simp add: ex_request_def)
  note eq = proxyRequest_hit [OF this, of "snd (snd first_call)" 26, folded second_call_def]
  show "fst (snd second_call) =
     ex_bridge\<lparr>metrics := \<lparr>requests = 2, cacheHits = 1, cacheMisses = 1, errors = 0,
                           totalTokens = 8, averageResponseTime = 25, lastRequestTime = Some 25\<rparr>,
               cache := Some (cache_set Map.empty (generateCacheKey ex_env ex_options ex_request)
                               ex_response 300 25)\<rparr>"
    by (simp add: eq first_call_state ex_bridge_def)
  show "snd (snd second_call) = \<lparr>sent = [transformToClaudeFormat ex_options ex_request], sleeps = [], events = []\<rparr>"
    by (simp add: eq first_call_result)
qed

text \<open>
  Claim C9 at the input where the code departs from it: a call answered by the backend
  after 25 ms, the same request answered from the cache, and the same request once more
  after the time-to-live, answered by the backend after 400 ms. Two latencies were
  recorded, with mean 212.5; the stored average is 150, since \<open>updateMetrics\<close> divides by
  the count of all requests.
\<close>

theorem C9_average_counts_all_requests:
  "averageResponseTime (metrics (fst (snd first_call))) = 25
   \<and> averageResponseTime (metrics (fst (snd second_call))) = 25
   \<and> requests (metrics (fst (snd third_call))) = 3
   \<and> averageResponseTime (metrics (fst (snd third_call))) = 150
   \<and> averageResponseTime (metrics (fst (snd third_call))) \<noteq> (25 + 400) / 2"
proof -
  have miss: "cache_lookup ex_env (fst (snd second_call)) ex_request 400000 = None"
    by (simp add: cache_lookup_def second_call_state cache_get_def cache_set_def ex_bridge_def
          ex_options_def)
  have am: "authMethod (fst (snd second_call)) = Api"
    by (simp add: second_call_state ex_bridge_def)
  note eq = proxyRequest_success [OF miss ex_env_always_ok [where opts = "options (fst (snd second_call))"
              and creq = "transformToClaudeFormat (options (fst (snd second_call))) ex_request"
              and w = "snd (snd second_call)", folded am],
            where ?t1.0 = 400400, folded third_call_def]
  have third: "averageResponseTime (metrics (fst (snd third_call))) = 150"
    "requests (metrics (fst (snd third_call))) = 3"
    by (simp_all add: eq counted_miss_def updateMetrics_def token_count_def Let_def
          second_call_state ex_bridge_def ex_request_def ex_response_def)
  show ?thesis
    by (simp add: third first_call_state second_call_state ex_bridge_def)
qed

end
